theory Spec2Isabelle
  imports Complex_Main
begin

section \<open>Python and numpy primitives used by the pipeline\<close>

text \<open>
  Numbers are idealised: every Python / numpy floating-point value is a \<^typ>\<open>real\<close>
  and arithmetic is exact. Exceptions are values of \<open>py_error\<close>, and a computation
  that may raise returns \<open>py_error + 'a\<close> with \<open>Inl\<close> for the raised exception.
\<close>

datatype value_error = Audio_too_short real real | Audio_too_long real real | Empty_sequence

datatype py_error =
    IndexError
  | ValueError value_error
  | RuntimeError string
  | FileNotFoundError string
  | OSError
  | LoadError
  | LibraryError

definition py_bind :: "py_error + 'a \<Rightarrow> ('a \<Rightarrow> py_error + 'b) \<Rightarrow> py_error + 'b" where
  "py_bind m f = (case m of Inl e \<Rightarrow> Inl e | Inr v \<Rightarrow> f v)"

text \<open>
  A call into a library that either returns or raises an exception of the library's own;
  \<open>None\<close> is the raise.
\<close>

definition lib_call :: "'a option \<Rightarrow> py_error + 'a" where
  "lib_call r = (case r of None \<Rightarrow> Inl LibraryError | Some v \<Rightarrow> Inr v)"

text \<open>\<open>xs[i]\<close> for a non-negative constant index: raises IndexError out of range.\<close>

definition getitem :: "'a list \<Rightarrow> nat \<Rightarrow> py_error + 'a" where
  "getitem xs i = (if i < length xs then Inr (xs ! i) else Inl IndexError)"

text \<open>\<open>xs[a:b]\<close> for non-negative constants: a slice never raises, it is cut to the list.\<close>

definition slice :: "'a list \<Rightarrow> nat \<Rightarrow> nat \<Rightarrow> 'a list" where
  "slice xs a b = take (b - a) (drop a xs)"

text \<open>
  \<open>np.mean\<close> and \<open>np.std\<close> (population standard deviation, \<open>ddof = 0\<close>) of a
  one-dimensional array. On an empty array numpy returns NaN with a warning; the model's
  value there (\<open>0\<close>) is not used by any statement below.
\<close>

definition np_mean :: "real list \<Rightarrow> real" where
  "np_mean xs = sum_list xs / real (length xs)"

definition np_std :: "real list \<Rightarrow> real" where
  "np_std xs = sqrt (np_mean (map (\<lambda>x. \<bar>x - np_mean xs\<bar> ^ 2) xs))"

text \<open>
  \<open>round(x, 3)\<close>: the nearest multiple of \<open>0.001\<close>, a tie going to the even multiple.
\<close>

definition round_half_even :: "real \<Rightarrow> int" where
  "round_half_even x =
     (let f = \<lfloor>x\<rfloor>; d = x - of_int f
      in if d < 1 / 2 then f
         else if 1 / 2 < d then f + 1
         else if even f then f else f + 1)"

definition py_round3 :: "real \<Rightarrow> real" where
  "py_round3 x = of_int (round_half_even (x * 1000)) / 1000"

section \<open>The heuristic classifier (\<open>MockVoiceClassifier\<close>)\<close>

text \<open>
  \<open>features[i] if len(features) > i else 0\<close>, the guarded read that
  \<open>MockVoiceClassifier.predict\<close> uses for the offsets 91, 96, 97, 98 and 101.
\<close>

definition feature_or_0 :: "real list \<Rightarrow> nat \<Rightarrow> py_error + real" where
  "feature_or_0 features i = (if length features > i then getitem features i else Inr 0)"

text \<open>
  Lines 45 to 81 of \<open>classifier.py\<close>: the adjustments accumulated in \<open>ai_score\<close>,
  starting from \<open>0.0\<close>, in the order of the source.
\<close>

definition mock_adjustments :: "real list \<Rightarrow> py_error + real" where
  "mock_adjustments features =
     (let ai_score = 0 in
      py_bind (feature_or_0 features 91) (\<lambda>pitch_std.
      let ai_score = (if pitch_std < 30 then ai_score + 0.25
                      else if pitch_std > 100 then ai_score - 0.1
                      else ai_score);
          ai_score = (if length features \<ge> 80
                      then (let mfcc_std_values = slice features 40 80;
                                mfcc_consistency = np_std mfcc_std_values
                            in if mfcc_consistency < 2 then ai_score + 0.2 else ai_score)
                      else ai_score) in
      py_bind (feature_or_0 features 96) (\<lambda>jitter.
      let ai_score = (if jitter < 0.02 then ai_score + 0.15
                      else if jitter > 0.05 then ai_score - 0.1
                      else ai_score) in
      py_bind (feature_or_0 features 97) (\<lambda>shimmer.
      let ai_score = (if shimmer < 0.03 then ai_score + 0.15 else ai_score) in
      py_bind (feature_or_0 features 98) (\<lambda>hnr.
      let ai_score = (if hnr > 15 then ai_score + 0.15 else ai_score) in
      py_bind (feature_or_0 features 101) (\<lambda>onset_std.
      let ai_score = (if onset_std < 0.5 then ai_score + 0.1 else ai_score) in
      Inr ai_score))))))"

text \<open>Line 84: \<open>ai_score = max(0, min(1, 0.5 + ai_score))\<close>.\<close>

definition mock_clamped_score :: "real list \<Rightarrow> py_error + real" where
  "mock_clamped_score features =
     py_bind (mock_adjustments features) (\<lambda>ai_score. Inr (max 0 (min 1 (0.5 + ai_score))))"

text \<open>
  Lines 87 to 89: the value drawn by \<open>random.uniform(-0.1, 0.1)\<close> is the argument
  \<open>noise\<close>; the sum is clamped to \<open>[0.05, 0.95]\<close>.
\<close>

definition mock_final_score :: "real list \<Rightarrow> real \<Rightarrow> py_error + real" where
  "mock_final_score features noise =
     py_bind (mock_clamped_score features) (\<lambda>ai_score.
     let ai_score = ai_score + noise in
     Inr (max 0.05 (min 0.95 ai_score)))"

text \<open>
  The last four lines shared by both \<open>predict\<close> methods: threshold at \<open>0.5\<close>, the
  label, the confidence and its rounding.
\<close>

definition decide :: "real \<Rightarrow> string \<times> real" where
  "decide score =
     (let is_ai = score > 0.5;
          prediction = (if is_ai then ''AI_GENERATED'' else ''HUMAN'');
          confidence = (if is_ai then score else 1 - score)
      in (prediction, py_round3 confidence))"

definition mock_predict :: "real list \<Rightarrow> string \<Rightarrow> real \<Rightarrow> py_error + (string \<times> real)" where
  "mock_predict features language noise =
     py_bind (mock_final_score features noise) (\<lambda>ai_score. Inr (decide ai_score))"

section \<open>The ensemble classifier (\<open>EnsembleVoiceClassifier\<close>)\<close>

text \<open>
  A fitted sub-model is the function \<open>model.predict_proba(features_scaled)[0, 1]\<close>
  of the scaled row, \<open>None\<close> when the call raises (the exception \<open>predict\<close> catches).
  A fitted scaler is \<open>scaler.transform\<close>, \<open>None\<close> when it raises; that exception
  is not caught by \<open>predict\<close>.
\<close>

type_synonym sub_model = "real list \<Rightarrow> real option"

type_synonym feature_scaler = "real list \<Rightarrow> real list option"

text \<open>
  The attributes set by \<open>_load_models\<close>. The dict \<open>self.models\<close> is the list of its
  items in insertion order; \<open>self.weights\<close> is a map, its values the numbers of the weight
  file taken as real numbers.
\<close>

record ensemble_state =
  models :: "(string \<times> sub_model) list"
  scaler :: "feature_scaler option"
  weights :: "string \<rightharpoonup> real"

text \<open>\<open>d.get(key, default)\<close>.\<close>

definition dict_get :: "('k \<rightharpoonup> 'v) \<Rightarrow> 'k \<Rightarrow> 'v \<Rightarrow> 'v" where
  "dict_get d key dflt = (case d key of None \<Rightarrow> dflt | Some v \<Rightarrow> v)"

text \<open>
  The loop over \<open>self.models.items()\<close>: a sub-model that raises is logged and left out
  of \<open>predictions\<close>.
\<close>

fun collect_predictions :: "(string \<times> sub_model) list \<Rightarrow> real list \<Rightarrow> (string \<times> real) list" where
  "collect_predictions [] features_scaled = []"
| "collect_predictions ((name, model) # rest) features_scaled =
     (case model features_scaled of
        Some proba \<Rightarrow> (name, proba) # collect_predictions rest features_scaled
      | None \<Rightarrow> collect_predictions rest features_scaled)"

text \<open>\<open>sum(self.weights.get(name, 0) * score for name, score in predictions.items())\<close>.\<close>

definition ensemble_score :: "(string \<rightharpoonup> real) \<Rightarrow> (string \<times> real) list \<Rightarrow> real" where
  "ensemble_score w predictions =
     sum_list (map (\<lambda>(name, score). dict_get w name 0 * score) predictions)"

definition scale_features :: "ensemble_state \<Rightarrow> real list \<Rightarrow> py_error + real list" where
  "scale_features self features =
     (case scaler self of Some sc \<Rightarrow> lib_call (sc features) | None \<Rightarrow> Inr features)"

definition ensemble_raw_score :: "ensemble_state \<Rightarrow> real list \<Rightarrow> py_error + real" where
  "ensemble_raw_score self features =
     py_bind (scale_features self features) (\<lambda>features_scaled.
     let predictions = collect_predictions (models self) features_scaled in
     if predictions = [] then Inl (RuntimeError ''All models failed to predict'')
     else Inr (ensemble_score (weights self) predictions))"

definition ensemble_predict :: "ensemble_state \<Rightarrow> real list \<Rightarrow> string \<Rightarrow> py_error + (string \<times> real)" where
  "ensemble_predict self features language =
     py_bind (ensemble_raw_score self features) (\<lambda>score. Inr (decide score))"

text \<open>
  The fused score with the weights renormalised over the surviving sub-models, as the
  specification words it: the weighted sum divided by the total weight of the survivors.
\<close>

definition spec_renormalized_score :: "(string \<rightharpoonup> real) \<Rightarrow> (string \<times> real) list \<Rightarrow> real" where
  "spec_renormalized_score w predictions =
     ensemble_score w predictions / sum_list (map (\<lambda>(name, score). dict_get w name 0) predictions)"

section \<open>Loading the artifacts and choosing the classifier\<close>

text \<open>
  A file of the model directory, as the loader meets it. The test \<open>exists()\<close> raises
  OSError (a directory that may not be searched, a path that is too long: every error other
  than a missing file is raised again by \<open>Path.exists\<close>), or it is false, or the file is
  present and \<open>joblib.load\<close> or \<open>json.load\<close> raises, or the file is present with its
  content.
\<close>

datatype 'a stored_file = Inaccessible | Absent | Unreadable | Stored 'a

record model_directory =
  model_pkl :: "string \<Rightarrow> sub_model stored_file"
  scaler_pkl :: "feature_scaler stored_file"
  weights_json :: "(string \<rightharpoonup> real) stored_file"

text \<open>\<open>path.exists()\<close>.\<close>

definition path_exists :: "'a stored_file \<Rightarrow> py_error + bool" where
  "path_exists f =
     (case f of
        Inaccessible \<Rightarrow> Inl OSError
      | Absent \<Rightarrow> Inr False
      | Unreadable \<Rightarrow> Inr True
      | Stored x \<Rightarrow> Inr True)"

text \<open>\<open>joblib.load(path)\<close>, and \<open>json.load\<close> of the opened file, of a file that exists.\<close>

definition load_file :: "'a stored_file \<Rightarrow> py_error + 'a" where
  "load_file f = (case f of Stored x \<Rightarrow> Inr x | _ \<Rightarrow> Inl LoadError)"

text \<open>\<open>if path.exists(): ... load(path)\<close>, with \<open>None\<close> for a file that is not there.\<close>

definition load_if_exists :: "'a stored_file \<Rightarrow> py_error + 'a option" where
  "load_if_exists f =
     py_bind (path_exists f) (\<lambda>present.
     if present then py_bind (load_file f) (\<lambda>x. Inr (Some x)) else Inr None)"

definition model_names :: "string list" where
  "model_names = [''random_forest'', ''gradient_boosting'', ''svm'']"

fun load_model_files :: "(string \<Rightarrow> sub_model stored_file) \<Rightarrow> string list \<Rightarrow> py_error + (string \<times> sub_model) list" where
  "load_model_files d [] = Inr []"
| "load_model_files d (name # names) =
     py_bind (load_if_exists (d name)) (\<lambda>loaded.
     py_bind (load_model_files d names) (\<lambda>rest.
     Inr (case loaded of None \<Rightarrow> rest | Some m \<Rightarrow> (name, m) # rest)))"

text \<open>\<open>{name: 1/len(self.models) for name in self.models.keys()}\<close>.\<close>

definition equal_weights :: "(string \<times> sub_model) list \<Rightarrow> (string \<rightharpoonup> real)" where
  "equal_weights ms = map_of (map (\<lambda>(name, m). (name, 1 / real (length ms))) ms)"

definition load_models :: "model_directory \<Rightarrow> py_error + ensemble_state" where
  "load_models dir =
     py_bind (load_model_files (model_pkl dir) model_names) (\<lambda>ms.
     py_bind (load_if_exists (scaler_pkl dir)) (\<lambda>sc.
     py_bind (load_if_exists (weights_json dir)) (\<lambda>loaded_weights.
     let w = (case loaded_weights of Some w \<Rightarrow> w | None \<Rightarrow> equal_weights ms) in
     if ms = [] then Inl (FileNotFoundError ''No models found'')
     else Inr \<lparr>models = ms, scaler = sc, weights = w\<rparr>)))"

datatype classifier = MockVoiceClassifier | EnsembleVoiceClassifier ensemble_state

fun is_mock :: "classifier \<Rightarrow> bool" where
  "is_mock MockVoiceClassifier = True"
| "is_mock (EnsembleVoiceClassifier self) = False"

fun model_version :: "classifier \<Rightarrow> string" where
  "model_version MockVoiceClassifier = ''1.0.0-mock''"
| "model_version (EnsembleVoiceClassifier self) = ''1.0.0''"

text \<open>
  \<open>all((model_path / f).exists() for f in required_files)\<close> with the required files
  \<open>random_forest.pkl\<close> and \<open>scaler.pkl\<close>: the tests run in this order and stop at the
  first that is false. They stand outside the \<open>try\<close>, so an OSError of \<open>exists()\<close>
  leaves \<open>get_classifier\<close>.
\<close>

definition required_files_exist :: "model_directory \<Rightarrow> py_error + bool" where
  "required_files_exist dir =
     py_bind (path_exists (model_pkl dir ''random_forest'')) (\<lambda>present.
     if present then path_exists (scaler_pkl dir) else Inr False)"

text \<open>
  \<open>get_classifier(model_dir)\<close>, on a file system \<open>fs\<close> that gives each path its
  directory. \<open>if model_dir\<close> is false for \<open>None\<close> and for the empty string; every
  exception of the constructor is caught and the mock classifier is returned.
\<close>

definition get_classifier :: "(string \<Rightarrow> model_directory) \<Rightarrow> string option \<Rightarrow> py_error + classifier" where
  "get_classifier fs model_dir =
     (case model_dir of
        None \<Rightarrow> Inr MockVoiceClassifier
      | Some path \<Rightarrow>
          if path \<noteq> []
          then py_bind (required_files_exist (fs path)) (\<lambda>all_exist.
               if all_exist
               then (case load_models (fs path) of
                       Inr self \<Rightarrow> Inr (EnsembleVoiceClassifier self)
                     | Inl e \<Rightarrow> Inr MockVoiceClassifier)
               else Inr MockVoiceClassifier)
          else Inr MockVoiceClassifier)"

section \<open>Audio preprocessing (\<open>AudioProcessor.preprocess\<close>)\<close>

text \<open>
  The signal-processing library is a parameter: a record of the functions the pipeline
  calls, each with the arguments the source passes. \<open>load\<close>, \<open>normalize\<close> and
  \<open>trim\<close> may raise (\<open>None\<close>). A two-dimensional array of shape \<open>(d, t)\<close> is the list of its
  \<open>d\<close> rows; the two arrays of \<open>piptrack\<close> are the lists of their \<open>t\<close> columns
  (frames), since the source reads them by column. The rows of \<open>split\<close> are the
  sample intervals \<open>(start, end)\<close>.
\<close>

type_synonym bytes = "char list"

record librosa =
  load :: "bytes \<Rightarrow> nat \<Rightarrow> (real list \<times> nat) option"
  get_duration :: "real list \<Rightarrow> nat \<Rightarrow> real"
  normalize :: "real list \<Rightarrow> real list option"
  trim :: "real list \<Rightarrow> real \<Rightarrow> (real list \<times> (nat \<times> nat)) option"
  mfcc :: "real list \<Rightarrow> nat \<Rightarrow> nat \<Rightarrow> real list list"
  spectral_centroid :: "real list \<Rightarrow> nat \<Rightarrow> real list list"
  spectral_rolloff :: "real list \<Rightarrow> nat \<Rightarrow> real list list"
  spectral_bandwidth :: "real list \<Rightarrow> nat \<Rightarrow> real list list"
  spectral_contrast :: "real list \<Rightarrow> nat \<Rightarrow> real list list"
  spectral_flatness :: "real list \<Rightarrow> real list list"
  piptrack :: "real list \<Rightarrow> nat \<Rightarrow> real list list \<times> real list list"
  rms :: "real list \<Rightarrow> real list list"
  zero_crossing_rate :: "real list \<Rightarrow> real list list"
  hpss :: "real list \<Rightarrow> real list \<times> real list"
  split :: "real list \<Rightarrow> real \<Rightarrow> (int \<times> int) list"
  onset_strength :: "real list \<Rightarrow> nat \<Rightarrow> real list"
  chroma_stft :: "real list \<Rightarrow> nat \<Rightarrow> real list list"

record audio_processor =
  target_sr :: nat
  min_duration :: real
  max_duration :: real

text \<open>\<open>AudioProcessor.__init__(target_sr)\<close>; the source's default is \<open>22050\<close>.\<close>

definition AudioProcessor :: "nat \<Rightarrow> audio_processor" where
  "AudioProcessor sr = \<lparr>target_sr = sr, min_duration = 1.0, max_duration = 60.0\<rparr>"

definition preprocess :: "librosa \<Rightarrow> audio_processor \<Rightarrow> bytes \<Rightarrow> py_error + (real list \<times> nat \<times> real)" where
  "preprocess lib self audio_bytes =
     py_bind (lib_call (load lib audio_bytes (target_sr self))) (\<lambda>(audio, sr).
     let duration = get_duration lib audio sr in
     if duration < min_duration self
     then Inl (ValueError (Audio_too_short duration (min_duration self)))
     else if duration > max_duration self
     then Inl (ValueError (Audio_too_long duration (max_duration self)))
     else py_bind (lib_call (normalize lib audio)) (\<lambda>audio.
          py_bind (lib_call (trim lib audio 30)) (\<lambda>(audio, index).
          Inr (audio, sr, duration))))"

text \<open>The two duration failures of \<open>preprocess\<close>.\<close>

fun is_duration_error :: "py_error + 'a \<Rightarrow> bool" where
  "is_duration_error (Inl (ValueError (Audio_too_short d m))) = True"
| "is_duration_error (Inl (ValueError (Audio_too_long d m))) = True"
| "is_duration_error r = False"

section \<open>Feature extraction (\<open>AudioProcessor.extract_all_features\<close>)\<close>

text \<open>\<open>a.argmax()\<close>: the first index of the largest entry; ValueError on an empty array.\<close>

fun argmax_from :: "real \<Rightarrow> nat \<Rightarrow> nat \<Rightarrow> real list \<Rightarrow> nat" where
  "argmax_from best best_i i [] = best_i"
| "argmax_from best best_i i (x # xs) =
     (if x > best then argmax_from x i (Suc i) xs else argmax_from best best_i (Suc i) xs)"

definition np_argmax :: "real list \<Rightarrow> py_error + nat" where
  "np_argmax xs = (case xs of [] \<Rightarrow> Inl (ValueError Empty_sequence) | x # rest \<Rightarrow> Inr (argmax_from x 0 1 rest))"

text \<open>\<open>np.diff\<close> and \<open>np.ptp\<close> of a one-dimensional array.\<close>

definition np_diff :: "real list \<Rightarrow> real list" where
  "np_diff xs = map2 (\<lambda>a b. b - a) xs (tl xs)"

definition np_ptp :: "real list \<Rightarrow> real" where
  "np_ptp xs = Max (set xs) - Min (set xs)"

definition epsilon :: real where
  "epsilon = 1 / 10 ^ 10"

text \<open>
  The loop \<open>for t in range(pitches.shape[1])\<close> of the prosodic and the voice-quality
  extractor: the pitch at the strongest bin of each frame, kept when positive.
\<close>

fun pitch_loop :: "real list list \<Rightarrow> real list list \<Rightarrow> nat list \<Rightarrow> py_error + real list" where
  "pitch_loop pitches magnitudes [] = Inr []"
| "pitch_loop pitches magnitudes (t # ts) =
     py_bind (getitem magnitudes t) (\<lambda>column.
     py_bind (np_argmax column) (\<lambda>index.
     py_bind (getitem pitches t) (\<lambda>pitch_column.
     py_bind (getitem pitch_column index) (\<lambda>pitch.
     py_bind (pitch_loop pitches magnitudes ts) (\<lambda>rest.
     Inr (if pitch > 0 then pitch # rest else rest))))))"

definition pitch_values :: "real list list \<times> real list list \<Rightarrow> py_error + real list" where
  "pitch_values pm = (case pm of (pitches, magnitudes) \<Rightarrow>
     pitch_loop pitches magnitudes [0..<length pitches])"

definition extract_mfcc_features :: "librosa \<Rightarrow> real list \<Rightarrow> nat \<Rightarrow> real list" where
  "extract_mfcc_features lib audio sr =
     (let mfccs = mfcc lib audio sr 40;
          mfcc_mean = map np_mean mfccs;
          mfcc_std = map np_std mfccs
      in mfcc_mean @ mfcc_std)"

definition extract_spectral_features :: "librosa \<Rightarrow> real list \<Rightarrow> nat \<Rightarrow> py_error + real list" where
  "extract_spectral_features lib audio sr =
     py_bind (getitem (spectral_centroid lib audio sr) 0) (\<lambda>centroid.
     py_bind (getitem (spectral_rolloff lib audio sr) 0) (\<lambda>rolloff.
     py_bind (getitem (spectral_bandwidth lib audio sr) 0) (\<lambda>bandwidth.
     let contrast = concat (spectral_contrast lib audio sr) in
     py_bind (getitem (spectral_flatness lib audio) 0) (\<lambda>flatness.
     Inr [np_mean centroid, np_std centroid,
          np_mean rolloff, np_std rolloff,
          np_mean bandwidth, np_std bandwidth,
          np_mean contrast, np_std contrast,
          np_mean flatness, np_std flatness]))))"

definition extract_prosodic_features :: "librosa \<Rightarrow> real list \<Rightarrow> nat \<Rightarrow> py_error + real list" where
  "extract_prosodic_features lib audio sr =
     py_bind (pitch_values (piptrack lib audio sr)) (\<lambda>pv.
     let (pitch_mean, pitch_std, pitch_range) =
           (if pv \<noteq> [] then (np_mean pv, np_std pv, np_ptp pv) else (0, 0, 0)) in
     py_bind (getitem (rms lib audio) 0) (\<lambda>rms_row.
     let energy_mean = np_mean rms_row;
         energy_std = np_std rms_row in
     py_bind (getitem (zero_crossing_rate lib audio) 0) (\<lambda>zcr.
     let zcr_mean = np_mean zcr in
     Inr [pitch_mean, pitch_std, pitch_range, energy_mean, energy_std, zcr_mean])))"

definition relative_perturbation :: "real list \<Rightarrow> real" where
  "relative_perturbation xs =
     np_mean (map2 (\<lambda>d x. \<bar>d\<bar> / (x + epsilon)) (np_diff xs) (butlast xs))"

definition extract_voice_quality_features :: "librosa \<Rightarrow> real list \<Rightarrow> nat \<Rightarrow> py_error + real list" where
  "extract_voice_quality_features lib audio sr =
     py_bind (pitch_values (piptrack lib audio sr)) (\<lambda>pv.
     let jitter = (if length pv > 1 then relative_perturbation pv else 0) in
     py_bind (getitem (rms lib audio) 0) (\<lambda>rms_row.
     let shimmer = (if length rms_row > 1 then relative_perturbation rms_row else 0);
         (harmonic, percussive) = hpss lib audio;
         hnr = 10 * log 10 ((sum_list (map (\<lambda>x. x ^ 2) harmonic) + epsilon)
                             / (sum_list (map (\<lambda>x. x ^ 2) percussive) + epsilon))
     in Inr [jitter, shimmer, hnr]))"

definition extract_temporal_features :: "librosa \<Rightarrow> real list \<Rightarrow> nat \<Rightarrow> real list" where
  "extract_temporal_features lib audio sr =
     (let intervals = split lib audio 30;
          (silence_ratio, avg_pause) =
            (if length intervals > 0
             then (let speech_duration = sum_list (map (\<lambda>(start, end). end - start) intervals);
                       silence_ratio = 1 - real_of_int speech_duration / real (length audio);
                       avg_pause =
                         (if length intervals > 1
                          then (let pauses = map (\<lambda>i. fst (intervals ! (i + 1)) - snd (intervals ! i))
                                                 [0..<length intervals - 1]
                                in if pauses \<noteq> []
                                   then np_mean (map real_of_int pauses) / real sr else 0)
                          else 0)
                   in (silence_ratio, avg_pause))
             else (1, 0));
          onset_env = onset_strength lib audio sr;
          onset_mean = np_mean onset_env;
          onset_std = np_std onset_env
      in [silence_ratio, avg_pause, onset_mean, onset_std])"

definition extract_chroma_features :: "librosa \<Rightarrow> real list \<Rightarrow> nat \<Rightarrow> real list" where
  "extract_chroma_features lib audio sr =
     (let chroma = chroma_stft lib audio sr;
          chroma_mean = map np_mean chroma;
          chroma_std = map np_std chroma
      in chroma_mean @ chroma_std)"

text \<open>
  \<open>np.array(features, dtype=np.float32)\<close>: the array carries its element type. The
  conversion rounds each value to that precision, which the idealised numbers do not show.
\<close>

datatype np_dtype = Float32 | Float64

record ndarray =
  dtype :: np_dtype
  data :: "real list"

definition np_array :: "real list \<Rightarrow> np_dtype \<Rightarrow> ndarray" where
  "np_array xs dt = \<lparr>dtype = dt, data = xs\<rparr>"

definition extract_all_features :: "librosa \<Rightarrow> real list \<Rightarrow> nat \<Rightarrow> py_error + ndarray" where
  "extract_all_features lib audio sr =
     (let features = [];
          mfcc_features = extract_mfcc_features lib audio sr;
          features = features @ mfcc_features in
      py_bind (extract_spectral_features lib audio sr) (\<lambda>spectral_features.
      let features = features @ spectral_features in
      py_bind (extract_prosodic_features lib audio sr) (\<lambda>prosodic_features.
      let features = features @ prosodic_features in
      py_bind (extract_voice_quality_features lib audio sr) (\<lambda>voice_quality.
      let features = features @ voice_quality;
          temporal_features = extract_temporal_features lib audio sr;
          features = features @ temporal_features;
          chroma_features = extract_chroma_features lib audio sr;
          features = features @ chroma_features
      in Inr (np_array features Float32)))))"

section \<open>The specification's statements\<close>

text \<open>
  The adjustment table of the specification, each rule applied on its own, over a way
  \<open>f\<close> of reading an offset and the outcome \<open>mfcc_rule\<close> of the test on
  \<open>std(40:80)\<close>.
\<close>

definition spec_adjustment_table :: "(nat \<Rightarrow> real) \<Rightarrow> bool \<Rightarrow> real" where
  "spec_adjustment_table f mfcc_rule =
       (if f 91 < 30 then 0.25 else 0)
     + (if f 91 > 100 then - 0.1 else 0)
     + (if mfcc_rule then 0.2 else 0)
     + (if f 96 < 0.02 then 0.15 else 0)
     + (if f 96 > 0.05 then - 0.1 else 0)
     + (if f 97 < 0.03 then 0.15 else 0)
     + (if f 98 > 15 then 0.15 else 0)
     + (if f 101 < 0.5 then 0.1 else 0)"

text \<open>The accumulated score of the specification: \<open>0.5\<close> plus the table, clamped to \<open>[0, 1]\<close>.\<close>

definition spec_heuristic_score :: "real list \<Rightarrow> real" where
  "spec_heuristic_score features =
     max 0 (min 1 (0.5 + spec_adjustment_table (\<lambda>i. features ! i)
                                               (np_std (slice features 40 80) < 2)))"

text \<open>
  The result the specification derives from a score: the label by the threshold, the
  confidence unrounded.
\<close>

definition spec_result :: "real \<Rightarrow> string \<times> real" where
  "spec_result score =
     (if score > 0.5 then (''AI_GENERATED'', score) else (''HUMAN'', 1 - score))"

text \<open>An offset read with \<open>0\<close> standing for a value beyond the end of the vector.\<close>

definition feature_at :: "real list \<Rightarrow> nat \<Rightarrow> real" where
  "feature_at features i = (if i < length features then features ! i else 0)"

text \<open>
  The contribution of one sub-model to the fused score: its loaded weight (zero without an
  entry) times its probability, and nothing when it failed.
\<close>

definition contribution :: "(string \<rightharpoonup> real) \<Rightarrow> real list \<Rightarrow> string \<times> sub_model \<Rightarrow> real" where
  "contribution w features_scaled nm =
     (case snd nm features_scaled of
        None \<Rightarrow> 0
      | Some proba \<Rightarrow> dict_get w (fst nm) 0 * proba)"

text \<open>
  The data-model invariant of a loaded ensemble on one input: weights are non-negative and
  sum to at most one over the loaded sub-models, and every sub-model that answers gives a
  probability.
\<close>

definition weights_valid :: "ensemble_state \<Rightarrow> bool" where
  "weights_valid self \<longleftrightarrow>
     list_all (\<lambda>(name, m). 0 \<le> dict_get (weights self) name 0) (models self)
     \<and> sum_list (map (\<lambda>(name, m). dict_get (weights self) name 0) (models self)) \<le> 1"

definition probabilities_valid :: "ensemble_state \<Rightarrow> real list \<Rightarrow> bool" where
  "probabilities_valid self features_scaled \<longleftrightarrow>
     list_all (\<lambda>(name, m). case m features_scaled of None \<Rightarrow> True | Some p \<Rightarrow> 0 \<le> p \<and> p \<le> 1)
              (models self)"

text \<open>
  No file that \<open>_load_models\<close> looks for makes \<open>exists()\<close> raise, and none that it opens
  fails to load.
\<close>

definition loads_without_error :: "model_directory \<Rightarrow> bool" where
  "loads_without_error dir \<longleftrightarrow>
     list_all (\<lambda>name. model_pkl dir name \<noteq> Inaccessible \<and> model_pkl dir name \<noteq> Unreadable)
              model_names
     \<and> scaler_pkl dir \<noteq> Inaccessible \<and> scaler_pkl dir \<noteq> Unreadable
     \<and> weights_json dir \<noteq> Inaccessible \<and> weights_json dir \<noteq> Unreadable"

text \<open>
  What \<open>get_classifier\<close> needs for the ensemble: a non-empty directory path under which
  \<open>random_forest.pkl\<close> and \<open>scaler.pkl\<close> exist and every file looked for loads.
\<close>

definition ensemble_available :: "(string \<Rightarrow> model_directory) \<Rightarrow> string option \<Rightarrow> bool" where
  "ensemble_available fs model_dir =
     (case model_dir of
        None \<Rightarrow> False
      | Some path \<Rightarrow>
          path \<noteq> []
          \<and> model_pkl (fs path) ''random_forest'' \<noteq> Absent
          \<and> scaler_pkl (fs path) \<noteq> Absent
          \<and> loads_without_error (fs path))"

text \<open>
  The existence tests that \<open>get_classifier\<close> itself makes return: the one on
  \<open>random_forest.pkl\<close>, and, when that file exists, the one on \<open>scaler.pkl\<close>.
\<close>

definition existence_tests_return :: "(string \<Rightarrow> model_directory) \<Rightarrow> string option \<Rightarrow> bool" where
  "existence_tests_return fs model_dir =
     (case model_dir of
        None \<Rightarrow> True
      | Some path \<Rightarrow>
          path = []
          \<or> (model_pkl (fs path) ''random_forest'' \<noteq> Inaccessible
              \<and> (model_pkl (fs path) ''random_forest'' = Absent
                  \<or> scaler_pkl (fs path) \<noteq> Inaccessible)))"

text \<open>
  The output shapes of the library on one buffer: \<open>n_mfcc\<close> rows of cepstral
  coefficients, twelve chroma rows, at least one row where the source takes row \<open>0\<close>,
  and two pitch-tracking arrays of one shape with at least one frequency bin.
\<close>

definition librosa_shapes :: "librosa \<Rightarrow> real list \<Rightarrow> nat \<Rightarrow> bool" where
  "librosa_shapes lib audio sr \<longleftrightarrow>
     length (mfcc lib audio sr 40) = 40
     \<and> length (chroma_stft lib audio sr) = 12
     \<and> spectral_centroid lib audio sr \<noteq> []
     \<and> spectral_rolloff lib audio sr \<noteq> []
     \<and> spectral_bandwidth lib audio sr \<noteq> []
     \<and> spectral_flatness lib audio \<noteq> []
     \<and> rms lib audio \<noteq> []
     \<and> zero_crossing_rate lib audio \<noteq> []
     \<and> list_all2 (\<lambda>p m. m \<noteq> [] \<and> length p = length m)
                  (fst (piptrack lib audio sr)) (snd (piptrack lib audio sr))"

text \<open>The gaps between consecutive speech intervals, in samples.\<close>

definition interval_gaps :: "(int \<times> int) list \<Rightarrow> int list" where
  "interval_gaps intervals = map2 (\<lambda>a b. fst b - snd a) intervals (tl intervals)"

text \<open>
  A library to run the pipeline on: the loader decodes every input to two seconds of
  silence at the requested rate, nothing is trimmed, and the whole buffer is one speech
  interval.
\<close>

definition example_librosa :: librosa where
  "example_librosa =
     \<lparr>load = (\<lambda>b sr. Some (replicate (2 * sr) 0, sr)),
      get_duration = (\<lambda>y sr. real (length y) / real sr),
      normalize = (\<lambda>y. Some y),
      trim = (\<lambda>y top_db. Some (y, (0, length y))),
      mfcc = (\<lambda>y sr n. replicate n [0, 0]),
      spectral_centroid = (\<lambda>y sr. [[0, 0]]),
      spectral_rolloff = (\<lambda>y sr. [[0, 0]]),
      spectral_bandwidth = (\<lambda>y sr. [[0, 0]]),
      spectral_contrast = (\<lambda>y sr. replicate 7 [0, 0]),
      spectral_flatness = (\<lambda>y. [[0, 0]]),
      piptrack = (\<lambda>y sr. ([[0, 440], [0, 440]], [[0, 1], [0, 1]])),
      rms = (\<lambda>y. [[0, 0]]),
      zero_crossing_rate = (\<lambda>y. [[0, 0]]),
      hpss = (\<lambda>y. (y, y)),
      split = (\<lambda>y top_db. [(0, int (length y))]),
      onset_strength = (\<lambda>y sr. [0, 0]),
      chroma_stft = (\<lambda>y sr. replicate 12 [0, 0])\<rparr>"

text \<open>A model directory holding only \<open>random_forest.pkl\<close> and \<open>scaler.pkl\<close>.\<close>

definition example_directory :: model_directory where
  "example_directory =
     \<lparr>model_pkl = (\<lambda>name. if name = ''random_forest'' then Stored (\<lambda>row. Some 0.9) else Absent),
      scaler_pkl = Stored (\<lambda>row. Some row),
      weights_json = Absent\<rparr>"

text \<open>A model directory that may not be searched: every existence test raises.\<close>

definition unsearchable_directory :: model_directory where
  "unsearchable_directory =
     \<lparr>model_pkl = (\<lambda>name. Inaccessible), scaler_pkl = Inaccessible, weights_json = Inaccessible\<rparr>"

text \<open>
  An ensemble with the weights \<open>0.5\<close>, \<open>0.3\<close>, \<open>0.2\<close> whose second sub-model fails and
  whose other two give the probabilities \<open>pa\<close> and \<open>pc\<close>.
\<close>

definition example_ensemble :: "real \<Rightarrow> real \<Rightarrow> ensemble_state" where
  "example_ensemble pa pc =
     \<lparr>models = [(''random_forest'', \<lambda>row. Some pa),
                (''gradient_boosting'', \<lambda>row. None),
                (''svm'', \<lambda>row. Some pc)],
      scaler = None,
      weights = [''random_forest'' \<mapsto> 0.5, ''gradient_boosting'' \<mapsto> 0.3, ''svm'' \<mapsto> 0.2]\<rparr>"

text \<open>
  An ensemble of two answering sub-models whose weight file names only the first, and one
  of a single sub-model with a given weight.
\<close>

definition unweighted_ensemble :: ensemble_state where
  "unweighted_ensemble =
     \<lparr>models = [(''random_forest'', \<lambda>row. Some 0.8), (''svm'', \<lambda>row. Some 0.6)],
      scaler = None,
      weights = [''random_forest'' \<mapsto> 0.5]\<rparr>"

definition single_ensemble :: "real \<Rightarrow> real \<Rightarrow> ensemble_state" where
  "single_ensemble weight p =
     \<lparr>models = [(''random_forest'', \<lambda>row. Some p)],
      scaler = None,
      weights = [''random_forest'' \<mapsto> weight]\<rparr>"

text \<open>A vector of the canonical length that triggers only the onset rule of the table.\<close>

definition example_features :: "real list" where
  "example_features =
     replicate 60 0 @ replicate 20 4 @ replicate 11 0 @ [50] @ replicate 4 0
     @ [0.03, 0.03, 0] @ replicate 28 0"

text \<open>
  Variants of the example library: a decoder giving half a second, ninety seconds, and one
  second of silence followed by one second of signal that the trimmer cuts to the signal;
  and a speech detector finding three intervals, or none.
\<close>

definition half_second :: librosa where
  "half_second = example_librosa\<lparr>load := \<lambda>b sr. Some (replicate 11025 0, 22050)\<rparr>"

definition ninety_seconds :: librosa where
  "ninety_seconds = example_librosa\<lparr>load := \<lambda>b sr. Some (replicate 1984500 0, 22050)\<rparr>"

definition leading_silence :: librosa where
  "leading_silence = example_librosa
     \<lparr>load := \<lambda>b sr. Some (replicate 22050 0 @ replicate 22050 1, 22050),
      trim := \<lambda>y top_db. Some (drop 22050 y, (22050, length y))\<rparr>"

definition three_intervals :: librosa where
  "three_intervals = example_librosa\<lparr>split := \<lambda>y top_db. [(0, 2), (4, 6), (9, 10)]\<rparr>"

definition no_intervals :: librosa where
  "no_intervals = example_librosa\<lparr>split := \<lambda>y top_db. []\<rparr>"

section \<open>Auxiliary facts\<close>

lemma py_bind_Inr: "py_bind (Inr v) f = f v"
  by (simp add: py_bind_def)

lemma py_bind_Inl: "py_bind (Inl e) f = Inl e"
  by (simp add: py_bind_def)

lemma round_half_even_ge: "of_int k \<le> x \<Longrightarrow> k \<le> round_half_even x"
proof -
  assume "of_int k \<le> x"
  then have "k \<le> \<lfloor>x\<rfloor>" by (simp add: le_floor_iff)
  then show ?thesis by (simp add: round_half_even_def Let_def)
qed

lemma round_half_even_le: "x \<le> of_int k \<Longrightarrow> round_half_even x \<le> k"
  unfolding round_half_even_def Let_def
  apply auto
  apply linarith+
  done

lemma py_round3_ge_half: "1 / 2 \<le> x \<Longrightarrow> 1 / 2 \<le> py_round3 x"
  using round_half_even_ge [of 500 "x * 1000"] by (simp add: py_round3_def)

lemma py_round3_le_one: "x \<le> 1 \<Longrightarrow> py_round3 x \<le> 1"
  using round_half_even_le [of "x * 1000" 1000] by (simp add: py_round3_def)

lemma py_round3_19_20: "py_round3 (19 / 20) = 19 / 20"
  by (simp add: py_round3_def round_half_even_def)

lemma py_round3_29_50: "py_round3 (29 / 50) = 29 / 50"
  by (simp add: py_round3_def round_half_even_def)

lemma py_round3_half: "py_round3 (1 / 2) = 1 / 2"
  by (simp add: py_round3_def round_half_even_def)

lemma np_std_replicate_0: "np_std (replicate n 0) = 0"
  by (simp add: np_std_def np_mean_def sum_list_replicate)

subsection \<open>The heuristic classifier\<close>

lemma feature_or_0_feature_at: "feature_or_0 features i = Inr (feature_at features i)"
  by (simp add: feature_or_0_def getitem_def feature_at_def)

lemma mock_adjustments_table:
  "mock_adjustments features =
     Inr (spec_adjustment_table (feature_at features)
            (length features \<ge> 80 \<and> np_std (slice features 40 80) < 2))"
  by (simp add: mock_adjustments_def feature_or_0_feature_at py_bind_Inr Let_def
        spec_adjustment_table_def)

lemma spec_adjustment_table_cong:
  "f 91 = g 91 \<Longrightarrow> f 96 = g 96 \<Longrightarrow> f 97 = g 97 \<Longrightarrow> f 98 = g 98 \<Longrightarrow> f 101 = g 101
   \<Longrightarrow> spec_adjustment_table f b = spec_adjustment_table g b"
  by (simp add: spec_adjustment_table_def)

lemma mock_clamped_score_127:
  assumes "length features = 127"
  shows "mock_clamped_score features = Inr (spec_heuristic_score features)"
proof -
  have "spec_adjustment_table (feature_at features) (np_std (slice features 40 80) < 2)
      = spec_adjustment_table (\<lambda>i. features ! i) (np_std (slice features 40 80) < 2)"
    using assms by (intro spec_adjustment_table_cong) (simp_all add: feature_at_def)
  then show ?thesis
    using assms
    by (simp add: mock_clamped_score_def mock_adjustments_table py_bind_Inr
          spec_heuristic_score_def)
qed

lemma zeros_score: "spec_heuristic_score (replicate 127 0) = 1"
  by (simp add: spec_heuristic_score_def spec_adjustment_table_def slice_def np_std_replicate_0)

lemma example_features_length: "length example_features = 127"
  by (simp add: example_features_def)

lemma example_features_std: "np_std (slice example_features 40 80) = 2"
  by (simp add: example_features_def slice_def np_std_def np_mean_def sum_list_replicate)

lemma example_features_values:
  "example_features ! 91 = 50" "example_features ! 96 = 0.03"
  "example_features ! 97 = 0.03" "example_features ! 98 = 0" "example_features ! 101 = 0"
  by (simp_all add: example_features_def nth_append)

lemma example_features_score: "spec_heuristic_score example_features = 3 / 5"
  by (simp add: spec_heuristic_score_def spec_adjustment_table_def example_features_std
        example_features_values)

lemma py_round3_7004: "py_round3 (1751 / 2500) = 7 / 10"
  by (simp add: py_round3_def round_half_even_def)

lemma decide_cases:
  "decide s = (if s > 1 / 2 then (''AI_GENERATED'', py_round3 s) else (''HUMAN'', py_round3 (1 - s)))"
  by (simp add: decide_def Let_def)

lemma decide_confidence: "snd (decide s) = py_round3 (if s > 1 / 2 then s else 1 - s)"
  by (simp add: decide_cases)

lemma decide_label: "fst (decide s) = ''AI_GENERATED'' \<longleftrightarrow> s > 1 / 2"
  by (simp add: decide_cases)

lemma decide_ge_half: "1 / 2 \<le> snd (decide s)"
proof (cases "s > 1 / 2")
  case True
  then show ?thesis using py_round3_ge_half [of s] by (simp add: decide_cases)
next
  case False
  then show ?thesis using py_round3_ge_half [of "1 - s"] by (simp add: decide_cases)
qed

lemma decide_le_one: "0 \<le> s \<Longrightarrow> s \<le> 1 \<Longrightarrow> snd (decide s) \<le> 1"
  using py_round3_le_one [of s] py_round3_le_one [of "1 - s"] by (simp add: decide_cases)

lemma mock_final_score_range:
  "\<exists>t. mock_final_score features noise = Inr t \<and> 1 / 20 \<le> t \<and> t \<le> 19 / 20"
proof -
  obtain c where c: "mock_clamped_score features = Inr c"
    by (simp add: mock_clamped_score_def mock_adjustments_table py_bind_Inr)
  define t :: real where "t = max 0.05 (min 0.95 (c + noise))"
  have "mock_final_score features noise = Inr t"
    by (simp add: mock_final_score_def c py_bind_Inr t_def)
  moreover have "1 / 20 \<le> t" "t \<le> 19 / 20"
    unfolding t_def by (simp_all add: max_def min_def)
  ultimately show ?thesis by blast
qed

lemma zeros_predict:
  "mock_predict (replicate 127 0) ''english'' 0 = Inr (''AI_GENERATED'', 19 / 20)"
  by (simp add: mock_predict_def mock_final_score_def mock_clamped_score_127 py_bind_Inr
        decide_def Let_def zeros_score py_round3_19_20)

subsection \<open>The ensemble classifier\<close>

lemma ensemble_score_Nil: "ensemble_score w [] = 0"
  by (simp add: ensemble_score_def)

lemma ensemble_score_Cons:
  "ensemble_score w ((name, p) # ps) = dict_get w name 0 * p + ensemble_score w ps"
  by (simp add: ensemble_score_def)

lemma ensemble_score_collect:
  "ensemble_score w (collect_predictions ms fs) = sum_list (map (contribution w fs) ms)"
proof (induction ms)
  case Nil
  show ?case by (simp add: ensemble_score_Nil)
next
  case (Cons nm ms)
  obtain name m where nm: "nm = (name, m)" by (cases nm)
  show ?case
    using Cons.IH by (cases "m fs") (simp_all add: nm contribution_def ensemble_score_Cons)
qed

lemma collect_predictions_nonempty:
  "collect_predictions ms fs \<noteq> [] \<longleftrightarrow> list_ex (\<lambda>(name, m). m fs \<noteq> None) ms"
proof (induction ms)
  case Nil
  show ?case by simp
next
  case (Cons nm ms)
  obtain name m where nm: "nm = (name, m)" by (cases nm)
  show ?case using Cons.IH by (cases "m fs") (simp_all add: nm)
qed

lemma contribution_bounds:
  assumes "list_all (\<lambda>(name, m). 0 \<le> dict_get w name 0) ms"
    and "list_all (\<lambda>(name, m). case m fs of None \<Rightarrow> True | Some p \<Rightarrow> 0 \<le> p \<and> p \<le> 1) ms"
  shows "0 \<le> sum_list (map (contribution w fs) ms)
       \<and> sum_list (map (contribution w fs) ms)
           \<le> sum_list (map (\<lambda>(name, m). dict_get w name 0) ms)"
  using assms
proof (induction ms)
  case Nil
  show ?case by simp
next
  case (Cons nm ms)
  obtain name m where nm: "nm = (name, m)" by (cases nm)
  have w0: "0 \<le> dict_get w name 0" using Cons.prems(1) by (simp add: nm)
  have c: "0 \<le> contribution w fs nm \<and> contribution w fs nm \<le> dict_get w name 0"
  proof (cases "m fs")
    case None
    then show ?thesis using w0 by (simp add: contribution_def nm)
  next
    case (Some p)
    then have "0 \<le> p" "p \<le> 1" using Cons.prems(2) by (simp_all add: nm)
    then show ?thesis
      using w0 Some by (simp add: contribution_def nm mult_left_le)
  qed
  have "0 \<le> sum_list (map (contribution w fs) ms)
       \<and> sum_list (map (contribution w fs) ms)
           \<le> sum_list (map (\<lambda>(name, m). dict_get w name 0) ms)"
    using Cons by simp
  then show ?case using c by (simp add: nm)
qed

lemma collect_predictions_names:
  "fst ` set (collect_predictions ms fs) \<subseteq> fst ` set ms"
proof (induction ms)
  case Nil
  show ?case by simp
next
  case (Cons nm ms)
  obtain name m where nm: "nm = (name, m)" by (cases nm)
  show ?case using Cons.IH by (cases "m fs") (auto simp: nm)
qed

lemma collect_predictions_distinct:
  "distinct (map fst ms) \<Longrightarrow> distinct (map fst (collect_predictions ms fs))"
proof (induction ms)
  case Nil
  show ?case by simp
next
  case (Cons nm ms)
  obtain name m where nm: "nm = (name, m)" by (cases nm)
  have "name \<notin> fst ` set (collect_predictions ms fs)"
    using Cons.prems collect_predictions_names [of ms fs] by (auto simp: nm)
  then show ?case using Cons by (cases "m fs") (simp_all add: nm)
qed

lemma sum_list_dict:
  "distinct (map fst ps) \<Longrightarrow>
   sum_list (map (\<lambda>(name, score). g name * score) ps)
     = (\<Sum>name \<in> fst ` set ps. g name * the (map_of ps name))"
proof (induction ps)
  case Nil
  show ?case by simp
next
  case (Cons np ps)
  obtain name p where np: "np = (name, p)" by (cases np)
  have notin: "name \<notin> fst ` set ps" using Cons.prems by (simp add: np)
  have "(\<Sum>n \<in> fst ` set ps. g n * the (map_of (np # ps) n))
      = (\<Sum>n \<in> fst ` set ps. g n * the (map_of ps n))"
    using notin by (intro sum.cong) (auto simp: np)
  then show ?case
    using Cons notin by (simp add: np)
qed

lemma dict_get_dom:
  "dict_get w name 0 * (x::real) = (if name \<in> dom w then the (w name) * x else 0)"
  by (auto simp: dict_get_def dom_def)

lemma example_ensemble_valid:
  "weights_valid (example_ensemble (3 / 5) (3 / 5))"
  "probabilities_valid (example_ensemble (3 / 5) (3 / 5)) fs"
  by (simp_all add: weights_valid_def probabilities_valid_def example_ensemble_def dict_get_def)

lemma example_ensemble_predict:
  "ensemble_predict (example_ensemble (3 / 5) (3 / 5)) (replicate 127 0) ''english''
     = Inr (''HUMAN'', 29 / 50)"
  by (simp add: example_ensemble_def ensemble_predict_def ensemble_raw_score_def
        scale_features_def py_bind_Inr ensemble_score_def dict_get_def decide_def
        py_round3_29_50)

subsection \<open>Loading and selection\<close>

lemma load_if_exists_simps:
  "load_if_exists Inaccessible = Inl OSError"
  "load_if_exists Absent = Inr None"
  "load_if_exists Unreadable = Inl LoadError"
  "load_if_exists (Stored x) = Inr (Some x)"
  by (simp_all add: load_if_exists_def path_exists_def load_file_def py_bind_def)

lemma load_if_exists_ok:
  "f \<noteq> Inaccessible \<Longrightarrow> f \<noteq> Unreadable \<Longrightarrow>
   \<exists>r. load_if_exists f = Inr r \<and> (f \<noteq> Absent \<longrightarrow> r \<noteq> None)"
  by (cases f) (simp_all add: load_if_exists_simps)

lemma load_if_exists_error:
  "f = Inaccessible \<or> f = Unreadable \<Longrightarrow> \<exists>e. load_if_exists f = Inl e"
  by (auto simp: load_if_exists_simps)

lemma load_model_files_ok:
  "list_all (\<lambda>name. d name \<noteq> Inaccessible \<and> d name \<noteq> Unreadable) names \<Longrightarrow>
   \<exists>ms. load_model_files d names = Inr ms
        \<and> (\<forall>name \<in> set names. d name \<noteq> Absent \<longrightarrow> ms \<noteq> [])"
proof (induction names)
  case Nil
  show ?case by simp
next
  case (Cons name names)
  then obtain ms where ms: "load_model_files d names = Inr ms"
    "\<forall>name \<in> set names. d name \<noteq> Absent \<longrightarrow> ms \<noteq> []" by auto
  obtain r where r: "load_if_exists (d name) = Inr r" "d name \<noteq> Absent \<longrightarrow> r \<noteq> None"
    using Cons.prems load_if_exists_ok [of "d name"] by auto
  show ?case
    using ms r by (cases r) (auto simp: py_bind_Inr)
qed

lemma load_model_files_error:
  "\<not> list_all (\<lambda>name. d name \<noteq> Inaccessible \<and> d name \<noteq> Unreadable) names \<Longrightarrow>
   \<exists>e. load_model_files d names = Inl e"
proof (induction names)
  case Nil
  then show ?case by simp
next
  case (Cons name names)
  show ?case
  proof (cases "d name = Inaccessible \<or> d name = Unreadable")
    case True
    then obtain e where "load_if_exists (d name) = Inl e"
      using load_if_exists_error by blast
    then show ?thesis by (simp add: py_bind_Inl)
  next
    case False
    then obtain r where r: "load_if_exists (d name) = Inr r"
      using load_if_exists_ok [of "d name"] by auto
    have "\<exists>e. load_model_files d names = Inl e" using Cons False by simp
    then show ?thesis using r by (auto simp: py_bind_Inr py_bind_Inl)
  qed
qed

lemma load_models_ok:
  assumes "loads_without_error dir" and "model_pkl dir ''random_forest'' \<noteq> Absent"
  shows "\<exists>self. load_models dir = Inr self"
proof -
  have "list_all (\<lambda>name. model_pkl dir name \<noteq> Inaccessible \<and> model_pkl dir name \<noteq> Unreadable)
          model_names"
    using assms(1) by (simp add: loads_without_error_def)
  then obtain ms where ms: "load_model_files (model_pkl dir) model_names = Inr ms"
    "\<forall>name \<in> set model_names. model_pkl dir name \<noteq> Absent \<longrightarrow> ms \<noteq> []"
    using load_model_files_ok by blast
  have ne: "ms \<noteq> []" using ms(2) assms(2) by (simp add: model_names_def)
  obtain sc where sc: "load_if_exists (scaler_pkl dir) = Inr sc"
    using assms(1) load_if_exists_ok [of "scaler_pkl dir"]
    by (auto simp: loads_without_error_def)
  obtain w where w: "load_if_exists (weights_json dir) = Inr w"
    using assms(1) load_if_exists_ok [of "weights_json dir"]
    by (auto simp: loads_without_error_def)
  show ?thesis
    using ms(1) ne sc w by (simp add: load_models_def py_bind_Inr Let_def)
qed

lemma load_models_error:
  assumes "\<not> loads_without_error dir"
  shows "\<exists>e. load_models dir = Inl e"
proof (cases "list_all (\<lambda>name. model_pkl dir name \<noteq> Inaccessible
                          \<and> model_pkl dir name \<noteq> Unreadable) model_names")
  case False
  then obtain e where "load_model_files (model_pkl dir) model_names = Inl e"
    using load_model_files_error by blast
  then show ?thesis by (simp add: load_models_def py_bind_Inl)
next
  case True
  obtain ms where ms: "load_model_files (model_pkl dir) model_names = Inr ms"
    using True load_model_files_ok by blast
  show ?thesis
  proof (cases "scaler_pkl dir = Inaccessible \<or> scaler_pkl dir = Unreadable")
    case True
    then obtain e where "load_if_exists (scaler_pkl dir) = Inl e"
      using load_if_exists_error by blast
    then show ?thesis using ms by (simp add: load_models_def py_bind_Inr py_bind_Inl)
  next
    case False
    then obtain sc where sc: "load_if_exists (scaler_pkl dir) = Inr sc"
      using load_if_exists_ok [of "scaler_pkl dir"] by auto
    have "weights_json dir = Inaccessible \<or> weights_json dir = Unreadable"
      using assms True False by (auto simp: loads_without_error_def)
    then obtain e where "load_if_exists (weights_json dir) = Inl e"
      using load_if_exists_error by blast
    then show ?thesis using ms sc by (simp add: load_models_def py_bind_Inr py_bind_Inl)
  qed
qed

lemma required_files_exist_value:
  assumes "model_pkl dir ''random_forest'' \<noteq> Inaccessible"
    and "model_pkl dir ''random_forest'' = Absent \<or> scaler_pkl dir \<noteq> Inaccessible"
  shows "required_files_exist dir
           = Inr (model_pkl dir ''random_forest'' \<noteq> Absent \<and> scaler_pkl dir \<noteq> Absent)"
  using assms
  by (cases "model_pkl dir ''random_forest''"; cases "scaler_pkl dir")
     (simp_all add: required_files_exist_def path_exists_def py_bind_def)

lemma example_directory_tests_return:
  "existence_tests_return (\<lambda>path. example_directory) (Some ''models'')"
  "existence_tests_return (\<lambda>path. example_directory\<lparr>scaler_pkl := Absent\<rparr>) (Some ''models'')"
  "existence_tests_return (\<lambda>path. example_directory\<lparr>weights_json := Unreadable\<rparr>)
     (Some ''models'')"
  by (simp_all add: existence_tests_return_def example_directory_def)

lemma bad_weights_unavailable:
  "\<not> ensemble_available (\<lambda>path. example_directory\<lparr>weights_json := Unreadable\<rparr>)
       (Some ''models'')"
  by (simp add: ensemble_available_def example_directory_def loads_without_error_def)

lemma example_directory_available: "ensemble_available (\<lambda>path. example_directory) (Some ''models'')"
  by (simp add: ensemble_available_def example_directory_def loads_without_error_def model_names_def)

lemma no_scaler_unavailable:
  "\<not> ensemble_available (\<lambda>path. example_directory\<lparr>scaler_pkl := Absent\<rparr>) (Some ''models'')"
  by (simp add: ensemble_available_def example_directory_def)

subsection \<open>Preprocessing\<close>

lemma lib_call_Some: "lib_call (Some v) = Inr v"
  by (simp add: lib_call_def)

lemma lib_call_None: "lib_call None = Inl LibraryError"
  by (simp add: lib_call_def)

lemma is_duration_error_simps:
  "\<not> is_duration_error (Inr v)"
  "\<not> is_duration_error (Inl LibraryError)"
  by simp_all

lemma preprocess_load_failed:
  "load lib audio_bytes (target_sr self) = None \<Longrightarrow>
   preprocess lib self audio_bytes = Inl LibraryError"
  by (simp add: preprocess_def lib_call_None py_bind_Inl)

lemma preprocess_loaded:
  assumes "load lib audio_bytes (target_sr self) = Some (audio, sr)"
  shows "preprocess lib self audio_bytes =
     (let duration = get_duration lib audio sr in
      if duration < min_duration self
      then Inl (ValueError (Audio_too_short duration (min_duration self)))
      else if duration > max_duration self
      then Inl (ValueError (Audio_too_long duration (max_duration self)))
      else py_bind (lib_call (normalize lib audio)) (\<lambda>audio.
           py_bind (lib_call (trim lib audio 30)) (\<lambda>(audio, index).
           Inr (audio, sr, duration))))"
  using assms by (simp add: preprocess_def lib_call_Some py_bind_Inr)

lemma in_bounds_not_duration_error:
  "\<not> is_duration_error
       (py_bind (lib_call (normalize lib audio)) (\<lambda>audio.
        py_bind (lib_call (trim lib audio 30)) (\<lambda>(audio, index).
        Inr (audio, sr, duration))))"
  by (cases "normalize lib audio"; cases "trim lib (the (normalize lib audio)) 30")
     (auto simp: lib_call_def py_bind_def split: prod.splits)

lemma half_second_result:
  "preprocess half_second (AudioProcessor 22050) audio_bytes
     = Inl (ValueError (Audio_too_short (1 / 2) 1))"
  by (simp add: preprocess_def half_second_def example_librosa_def AudioProcessor_def
        lib_call_Some py_bind_Inr)

lemma ninety_seconds_result:
  "preprocess ninety_seconds (AudioProcessor 22050) audio_bytes
     = Inl (ValueError (Audio_too_long 90 60))"
  by (simp add: preprocess_def ninety_seconds_def example_librosa_def AudioProcessor_def
        lib_call_Some py_bind_Inr)

lemma two_seconds_result:
  "preprocess example_librosa (AudioProcessor 22050) audio_bytes
     = Inr (replicate 44100 0, 22050, 2)"
  by (simp add: preprocess_def example_librosa_def AudioProcessor_def
        lib_call_Some py_bind_Inr)

lemma leading_silence_result:
  "preprocess leading_silence (AudioProcessor 22050) audio_bytes
     = Inr (replicate 22050 1, 22050, 2)"
  by (simp add: preprocess_def leading_silence_def example_librosa_def AudioProcessor_def
        lib_call_Some py_bind_Inr)

subsection \<open>Feature extraction\<close>

lemma pauses_interval_gaps:
  "map (\<lambda>i. fst (intervals ! (i + 1)) - snd (intervals ! i)) [0..<length intervals - 1]
     = interval_gaps intervals"
  unfolding interval_gaps_def
  by (rule nth_equalityI) (simp_all add: nth_tl)

lemma interval_gaps_empty: "interval_gaps intervals = [] \<longleftrightarrow> length intervals < 2"
  unfolding interval_gaps_def by (cases intervals) (auto simp: Suc_lessI)

lemma extract_temporal_features_unfold:
  "extract_temporal_features lib audio sr =
     [if split lib audio 30 = [] then 1
      else 1 - real_of_int (sum_list (map (\<lambda>(start, end). end - start) (split lib audio 30)))
               / real (length audio),
      if length (split lib audio 30) < 2 then 0
      else np_mean (map real_of_int (interval_gaps (split lib audio 30))) / real sr,
      np_mean (onset_strength lib audio sr),
      np_std (onset_strength lib audio sr)]"
proof -
  have "length (split lib audio 30) < 2 \<or> interval_gaps (split lib audio 30) \<noteq> []"
    by (simp add: interval_gaps_empty)
  then show ?thesis
    unfolding extract_temporal_features_def Let_def pauses_interval_gaps
    by (cases "split lib audio 30") auto
qed

lemma argmax_from_bound:
  "best_i < i \<Longrightarrow> argmax_from best best_i i xs < i + length xs"
  by (induction best best_i i xs rule: argmax_from.induct) auto

lemma np_argmax_ok:
  assumes "xs \<noteq> []"
  shows "\<exists>k. np_argmax xs = Inr k \<and> k < length xs"
proof -
  obtain x rest where xs: "xs = x # rest" using assms by (cases xs) auto
  have "argmax_from x 0 1 rest < 1 + length rest"
    by (rule argmax_from_bound) simp
  then show ?thesis by (simp add: np_argmax_def xs)
qed

lemma pitch_loop_ok:
  assumes "\<forall>t \<in> set ts. t < length pitches \<and> t < length magnitudes
             \<and> magnitudes ! t \<noteq> [] \<and> length (pitches ! t) = length (magnitudes ! t)"
  shows "\<exists>pv. pitch_loop pitches magnitudes ts = Inr pv"
  using assms
proof (induction ts)
  case Nil
  show ?case by simp
next
  case (Cons t ts)
  then obtain rest where rest: "pitch_loop pitches magnitudes ts = Inr rest" by auto
  have t: "t < length pitches" "t < length magnitudes" "magnitudes ! t \<noteq> []"
    "length (pitches ! t) = length (magnitudes ! t)"
    using Cons.prems by auto
  obtain k where k: "np_argmax (magnitudes ! t) = Inr k" "k < length (magnitudes ! t)"
    using np_argmax_ok [OF t(3)] by blast
  show ?case
    using t k rest by (simp add: getitem_def py_bind_Inr)
qed

lemma pitch_values_ok:
  assumes "list_all2 (\<lambda>p m. m \<noteq> [] \<and> length p = length m) (fst pm) (snd pm)"
  shows "\<exists>pv. pitch_values pm = Inr pv"
proof -
  obtain pitches magnitudes where pm: "pm = (pitches, magnitudes)" by (cases pm)
  have "\<forall>t \<in> set [0..<length pitches]. t < length pitches \<and> t < length magnitudes
             \<and> magnitudes ! t \<noteq> [] \<and> length (pitches ! t) = length (magnitudes ! t)"
    using assms by (auto simp: pm list_all2_conv_all_nth)
  then show ?thesis
    unfolding pitch_values_def pm using pitch_loop_ok by simp
qed

lemma getitem_0: "xs \<noteq> [] \<Longrightarrow> getitem xs 0 = Inr (hd xs)"
  by (cases xs) (simp_all add: getitem_def)

lemma extract_spectral_features_ok:
  assumes "librosa_shapes lib audio sr"
  shows "\<exists>xs. extract_spectral_features lib audio sr = Inr xs \<and> length xs = 10"
  using assms
  by (simp add: librosa_shapes_def extract_spectral_features_def getitem_0 py_bind_Inr Let_def)

lemma extract_prosodic_features_ok:
  assumes "librosa_shapes lib audio sr"
  shows "\<exists>xs. extract_prosodic_features lib audio sr = Inr xs \<and> length xs = 6"
proof -
  have "list_all2 (\<lambda>p m. m \<noteq> [] \<and> length p = length m)
          (fst (piptrack lib audio sr)) (snd (piptrack lib audio sr))"
    using assms by (simp add: librosa_shapes_def)
  then obtain pv where "pitch_values (piptrack lib audio sr) = Inr pv"
    using pitch_values_ok [of "piptrack lib audio sr"] by blast
  then show ?thesis
    using assms
    by (simp add: librosa_shapes_def extract_prosodic_features_def getitem_0 py_bind_Inr Let_def
          split: prod.splits)
qed

lemma extract_voice_quality_features_ok:
  assumes "librosa_shapes lib audio sr"
  shows "\<exists>xs. extract_voice_quality_features lib audio sr = Inr xs \<and> length xs = 3"
proof -
  have "list_all2 (\<lambda>p m. m \<noteq> [] \<and> length p = length m)
          (fst (piptrack lib audio sr)) (snd (piptrack lib audio sr))"
    using assms by (simp add: librosa_shapes_def)
  then obtain pv where "pitch_values (piptrack lib audio sr) = Inr pv"
    using pitch_values_ok [of "piptrack lib audio sr"] by blast
  then show ?thesis
    using assms
    by (simp add: librosa_shapes_def extract_voice_quality_features_def getitem_0 py_bind_Inr
          Let_def split: prod.splits)
qed

lemma extract_temporal_features_length: "length (extract_temporal_features lib audio sr) = 4"
  by (simp add: extract_temporal_features_def Let_def split: prod.splits)

lemma extract_mfcc_features_eq:
  "extract_mfcc_features lib audio sr
     = map np_mean (mfcc lib audio sr 40) @ map np_std (mfcc lib audio sr 40)"
  by (simp add: extract_mfcc_features_def Let_def)

lemma extract_chroma_features_eq:
  "extract_chroma_features lib audio sr
     = map np_mean (chroma_stft lib audio sr) @ map np_std (chroma_stft lib audio sr)"
  by (simp add: extract_chroma_features_def Let_def)

lemma example_librosa_shapes: "librosa_shapes example_librosa audio sr"
  by (simp add: librosa_shapes_def example_librosa_def)

section \<open>The claims\<close>

text \<open>
  C1, as the code has it. When scaling succeeds and at least one sub-model answers,
  \<open>predict\<close> returns, and the fused score is the sum, over the loaded sub-models, of the
  originally loaded weight times the positive-class probability for a sub-model that
  answered and of nothing for one that failed. The weights of the survivors are not
  renormalised: with weights \<open>0.5\<close>, \<open>0.3\<close>, \<open>0.2\<close> and the second sub-model failing the
  score is \<open>0.5 pA + 0.2 pC\<close>.
\<close>

theorem partial_failure_unnormalized:
  assumes "scale_features self features = Inr features_scaled"
    and "list_ex (\<lambda>(name, m). m features_scaled \<noteq> None) (models self)"
  shows "ensemble_raw_score self features
           = Inr (sum_list (map (contribution (weights self) features_scaled) (models self)))
       \<and> ensemble_predict self features language
           = Inr (decide (sum_list (map (contribution (weights self) features_scaled)
                                        (models self))))"
  using assms
  by (simp add: ensemble_predict_def ensemble_raw_score_def py_bind_Inr Let_def
        collect_predictions_nonempty ensemble_score_collect)

text \<open>
  The theorem at the weights \<open>0.5\<close>, \<open>0.3\<close>, \<open>0.2\<close> with the second sub-model failing and
  both survivors answering \<open>0.6\<close>: the score is \<open>0.42\<close> and the label HUMAN.
\<close>

theorem partial_failure_unnormalized_witness:
  "scale_features (example_ensemble (3 / 5) (3 / 5)) (replicate 127 0) = Inr (replicate 127 0)
   \<and> list_ex (\<lambda>(name, m). m (replicate 127 0) \<noteq> None) (models (example_ensemble (3 / 5) (3 / 5)))
   \<and> ensemble_raw_score (example_ensemble (3 / 5) (3 / 5)) (replicate 127 0) = Inr (21 / 50)
   \<and> ensemble_predict (example_ensemble (3 / 5) (3 / 5)) (replicate 127 0) ''english''
       = Inr (''HUMAN'', 29 / 50)"
proof -
  have h1: "scale_features (example_ensemble (3 / 5) (3 / 5)) (replicate 127 0)
              = Inr (replicate 127 0)"
    by (simp add: example_ensemble_def scale_features_def)
  have h2: "list_ex (\<lambda>(name, m). m (replicate 127 0) \<noteq> None)
              (models (example_ensemble (3 / 5) (3 / 5)))"
    by (simp add: example_ensemble_def del: not_None_eq)
  have v: "sum_list (map (contribution (weights (example_ensemble (3 / 5) (3 / 5)))
                            (replicate 127 0))
             (models (example_ensemble (3 / 5) (3 / 5)))) = 21 / 50"
    by (simp add: example_ensemble_def contribution_def dict_get_def)
  have d: "decide (21 / 50) = (''HUMAN'', 29 / 50)"
    by (simp add: decide_def py_round3_29_50)
  show ?thesis
    using partial_failure_unnormalized [OF h1 h2, of "''english''"] h1 h2
    by (simp only: v d simp_thms)
qed

text \<open>
  C1 as stated fails there: the code's score is \<open>0.42\<close> and its answer HUMAN with
  confidence \<open>0.58\<close>, where the renormalised score is \<open>0.6\<close>, above the threshold.
\<close>

theorem renormalization_counterexample:
  "ensemble_raw_score (example_ensemble (3 / 5) (3 / 5)) (replicate 127 0) = Inr (21 / 50)
   \<and> spec_renormalized_score (weights (example_ensemble (3 / 5) (3 / 5)))
        (collect_predictions (models (example_ensemble (3 / 5) (3 / 5))) (replicate 127 0)) = 3 / 5
   \<and> ensemble_predict (example_ensemble (3 / 5) (3 / 5)) (replicate 127 0) ''english''
       = Inr (''HUMAN'', 29 / 50)
   \<and> spec_result (3 / 5) = (''AI_GENERATED'', 3 / 5)"
  by (simp add: example_ensemble_def ensemble_predict_def ensemble_raw_score_def
        scale_features_def py_bind_Inr spec_renormalized_score_def ensemble_score_def
        dict_get_def decide_def py_round3_29_50 spec_result_def)

text \<open>
  C2, as the code has it. For a vector of the canonical length the accumulated score is
  \<open>0.5\<close> plus the eight adjustments of the table and no others, clamped to \<open>[0, 1]\<close>.
  The value \<open>noise\<close> drawn from \<open>[-0.1, 0.1]\<close> is then added and the sum clamped to
  \<open>[0.05, 0.95]\<close>; the label is AI_GENERATED iff that final score exceeds \<open>0.5\<close>, and
  the confidence is the final score, or one minus it for HUMAN, rounded to three decimals.
\<close>

theorem mock_predict_table:
  assumes "length features = 127"
  shows "mock_clamped_score features = Inr (spec_heuristic_score features)
       \<and> mock_final_score features noise
           = Inr (max 0.05 (min 0.95 (spec_heuristic_score features + noise)))
       \<and> mock_predict features language noise
           = Inr (let t = max 0.05 (min 0.95 (spec_heuristic_score features + noise))
                  in (if t > 0.5 then ''AI_GENERATED'' else ''HUMAN'',
                      py_round3 (if t > 0.5 then t else 1 - t)))"
  using mock_clamped_score_127 [OF assms]
  by (simp add: mock_predict_def mock_final_score_def py_bind_Inr decide_def Let_def)

text \<open>The theorem at the all-zero vector of length 127 with no noise.\<close>

theorem mock_predict_table_witness:
  "length (replicate 127 (0::real)) = 127
   \<and> mock_predict (replicate 127 0) ''english'' 0 = Inr (''AI_GENERATED'', 19 / 20)"
  using mock_predict_table [of "replicate 127 0" 0 "''english''"]
  by (simp add: zeros_score py_round3_19_20)

text \<open>
  C2 as stated fails twice. On the all-zero vector with no noise the accumulated score is
  \<open>1\<close> and the returned confidence \<open>0.95\<close>. On a vector whose accumulated score is
  \<open>0.6\<close>, the noise \<open>-0.1\<close> turns the label to HUMAN.
\<close>

theorem mock_predict_counterexample:
  "spec_result (spec_heuristic_score (replicate 127 0)) = (''AI_GENERATED'', 1)
   \<and> mock_predict (replicate 127 0) ''english'' 0 = Inr (''AI_GENERATED'', 19 / 20)
   \<and> spec_result (spec_heuristic_score example_features) = (''AI_GENERATED'', 3 / 5)
   \<and> mock_predict example_features ''english'' (- 0.1) = Inr (''HUMAN'', 1 / 2)"
  by (simp add: mock_predict_def mock_final_score_def mock_clamped_score_127 py_bind_Inr
        decide_def Let_def zeros_score example_features_length example_features_score
        spec_result_def py_round3_19_20 py_round3_half)

text \<open>
  C3. Under the default configuration (40 cepstral coefficients, 12 chroma bins), for every
  buffer on which the library returns arrays of its documented shapes,
  \<open>extract_all_features\<close> returns an array of element type float32 with exactly 127
  values, laid out in the fixed order: 40 MFCC means, 40 MFCC standard deviations, 10
  spectral, 6 prosodic, 3 voice-quality, 4 temporal and 24 chroma features.
\<close>

theorem extract_all_features_layout:
  assumes "librosa_shapes lib audio sr"
  shows "\<exists>arr. extract_all_features lib audio sr = Inr arr
       \<and> dtype arr = Float32
       \<and> length (data arr) = 127
       \<and> slice (data arr) 0 40 = map np_mean (mfcc lib audio sr 40)
       \<and> slice (data arr) 40 80 = map np_std (mfcc lib audio sr 40)
       \<and> extract_spectral_features lib audio sr = Inr (slice (data arr) 80 90)
       \<and> extract_prosodic_features lib audio sr = Inr (slice (data arr) 90 96)
       \<and> extract_voice_quality_features lib audio sr = Inr (slice (data arr) 96 99)
       \<and> extract_temporal_features lib audio sr = slice (data arr) 99 103
       \<and> extract_chroma_features lib audio sr = slice (data arr) 103 127"
proof -
  obtain sp where sp: "extract_spectral_features lib audio sr = Inr sp" "length sp = 10"
    using extract_spectral_features_ok [OF assms] by blast
  obtain pr where pr: "extract_prosodic_features lib audio sr = Inr pr" "length pr = 6"
    using extract_prosodic_features_ok [OF assms] by blast
  obtain vq where vq: "extract_voice_quality_features lib audio sr = Inr vq" "length vq = 3"
    using extract_voice_quality_features_ok [OF assms] by blast
  define mm where "mm = map np_mean (mfcc lib audio sr 40)"
  define ms where "ms = map np_std (mfcc lib audio sr 40)"
  define te where "te = extract_temporal_features lib audio sr"
  define ch where "ch = extract_chroma_features lib audio sr"
  have lm: "length mm = 40" "length ms = 40"
    using assms by (simp_all add: librosa_shapes_def mm_def ms_def)
  have lt: "length te = 4" by (simp add: te_def extract_temporal_features_length)
  have lc: "length ch = 24"
    using assms by (simp add: librosa_shapes_def ch_def extract_chroma_features_eq)
  have e: "extract_all_features lib audio sr
             = Inr (np_array (mm @ ms @ sp @ pr @ vq @ te @ ch) Float32)"
    by (simp add: extract_all_features_def Let_def sp pr vq py_bind_Inr
          extract_mfcc_features_eq mm_def ms_def te_def ch_def)
  show ?thesis
    unfolding e sp pr vq mm_def [symmetric] ms_def [symmetric] te_def [symmetric]
      ch_def [symmetric]
    using lm lt lc sp(2) pr(2) vq(2)
    by (simp add: np_array_def slice_def)
qed

text \<open>The theorem on the example library and two seconds of audio.\<close>

theorem extract_all_features_layout_witness:
  "librosa_shapes example_librosa (replicate 44100 0) 22050
   \<and> (\<exists>arr. extract_all_features example_librosa (replicate 44100 0) 22050 = Inr arr
          \<and> dtype arr = Float32 \<and> length (data arr) = 127)"
  using extract_all_features_layout [OF example_librosa_shapes [of "replicate 44100 0" 22050]]
    example_librosa_shapes [of "replicate 44100 0" 22050]
  by blast

text \<open>
  C4, as the code has it. Whenever the existence tests that \<open>get_classifier\<close> itself makes
  on \<open>random_forest.pkl\<close> and \<open>scaler.pkl\<close> return, the call returns a classifier: the
  ensemble classifier exactly when a non-empty model directory is given,
  \<open>random_forest.pkl\<close> and \<open>scaler.pkl\<close> exist in it, and every file that the loader
  looks for (the three sub-models, the scaler, the weight file) can be tested for existence
  and, if present, loads without error; the other two sub-models need not be present.
  Otherwise, also when only the scaler is missing, it returns the heuristic classifier, and
  \<open>is_mock\<close> on the returned object tells which variant was selected.
\<close>

theorem get_classifier_selection:
  assumes "existence_tests_return fs model_dir"
  shows "\<exists>c. get_classifier fs model_dir = Inr c
       \<and> (is_mock c \<longleftrightarrow> \<not> ensemble_available fs model_dir)
       \<and> (ensemble_available fs model_dir \<longrightarrow>
            (\<exists>path self. model_dir = Some path \<and> load_models (fs path) = Inr self
               \<and> c = EnsembleVoiceClassifier self))
       \<and> (\<not> ensemble_available fs model_dir \<longrightarrow> c = MockVoiceClassifier)"
proof (cases model_dir)
  case None
  then show ?thesis by (simp add: get_classifier_def ensemble_available_def)
next
  case (Some path)
  show ?thesis
  proof (cases "path = []")
    case True
    then show ?thesis using Some by (simp add: get_classifier_def ensemble_available_def)
  next
    case False
    have t: "model_pkl (fs path) ''random_forest'' \<noteq> Inaccessible"
      "model_pkl (fs path) ''random_forest'' = Absent \<or> scaler_pkl (fs path) \<noteq> Inaccessible"
      using assms Some False by (auto simp: existence_tests_return_def)
    have r: "required_files_exist (fs path)
               = Inr (model_pkl (fs path) ''random_forest'' \<noteq> Absent
                      \<and> scaler_pkl (fs path) \<noteq> Absent)"
      using required_files_exist_value [OF t] .
    show ?thesis
    proof (cases "ensemble_available fs model_dir")
      case True
      then have p: "model_pkl (fs path) ''random_forest'' \<noteq> Absent"
        "scaler_pkl (fs path) \<noteq> Absent" "loads_without_error (fs path)"
        using Some by (simp_all add: ensemble_available_def)
      obtain self where "load_models (fs path) = Inr self"
        using load_models_ok [OF p(3) p(1)] by blast
      then show ?thesis
        using True Some False p r by (simp add: get_classifier_def py_bind_Inr)
    next
      case unavailable: False
      have "get_classifier fs model_dir = Inr MockVoiceClassifier"
      proof (cases "model_pkl (fs path) ''random_forest'' \<noteq> Absent
                    \<and> scaler_pkl (fs path) \<noteq> Absent")
        case True
        then have "\<not> loads_without_error (fs path)"
          using unavailable Some False by (simp add: ensemble_available_def)
        then obtain e where "load_models (fs path) = Inl e"
          using load_models_error by blast
        then show ?thesis
          using Some False True r by (simp add: get_classifier_def py_bind_Inr)
      next
        case False
        then show ?thesis
          using Some \<open>path \<noteq> []\<close> r by (auto simp: get_classifier_def py_bind_Inr)
      qed
      then show ?thesis using unavailable by simp
    qed
  qed
qed

text \<open>
  The theorem on a directory holding \<open>random_forest.pkl\<close> and \<open>scaler.pkl\<close>, on the
  same directory without the scaler, and on the same directory with a weight file that
  does not parse (the constructor raises and the exception is caught).
\<close>

theorem get_classifier_selection_witness:
  "existence_tests_return (\<lambda>path. example_directory) (Some ''models'')
   \<and> ensemble_available (\<lambda>path. example_directory) (Some ''models'')
   \<and> (\<exists>self. get_classifier (\<lambda>path. example_directory) (Some ''models'')
                = Inr (EnsembleVoiceClassifier self))
   \<and> existence_tests_return (\<lambda>path. example_directory\<lparr>scaler_pkl := Absent\<rparr>) (Some ''models'')
   \<and> \<not> ensemble_available (\<lambda>path. example_directory\<lparr>scaler_pkl := Absent\<rparr>) (Some ''models'')
   \<and> get_classifier (\<lambda>path. example_directory\<lparr>scaler_pkl := Absent\<rparr>) (Some ''models'')
       = Inr MockVoiceClassifier
   \<and> existence_tests_return (\<lambda>path. example_directory\<lparr>weights_json := Unreadable\<rparr>)
        (Some ''models'')
   \<and> get_classifier (\<lambda>path. example_directory\<lparr>weights_json := Unreadable\<rparr>) (Some ''models'')
       = Inr MockVoiceClassifier"
  using get_classifier_selection [OF example_directory_tests_return(1)]
    get_classifier_selection [OF example_directory_tests_return(2)]
    get_classifier_selection [OF example_directory_tests_return(3)]
    example_directory_tests_return example_directory_available no_scaler_unavailable
    bad_weights_unavailable
  by auto

text \<open>
  C4 as stated fails on that directory: two of the three sub-models are absent and the
  ensemble classifier is returned, with the one sub-model it found. It also fails on a
  directory that cannot be searched: the call raises OSError and returns no classifier.
\<close>

theorem missing_sub_models_counterexample:
  "model_pkl example_directory ''gradient_boosting'' = Absent
   \<and> model_pkl example_directory ''svm'' = Absent
   \<and> (case get_classifier (\<lambda>path. example_directory) (Some ''models'') of
         Inl e \<Rightarrow> []
       | Inr MockVoiceClassifier \<Rightarrow> []
       | Inr (EnsembleVoiceClassifier self) \<Rightarrow> map fst (models self))
       = [''random_forest'']
   \<and> get_classifier (\<lambda>path. unsearchable_directory) (Some ''models'') = Inl OSError"
  by (simp add: example_directory_def unsearchable_directory_def get_classifier_def
        required_files_exist_def path_exists_def load_models_def model_names_def
        load_if_exists_simps py_bind_Inr py_bind_Inl)

text \<open>
  C5. \<open>preprocess\<close> fails with a duration error exactly when the input decodes and the
  duration of the full decoded audio, taken before normalisation and trimming, is below the
  minimum or above the maximum (\<open>1.0\<close> and \<open>60.0\<close> seconds for a processor as
  constructed). Such a failure does not depend on normalisation or trimming: replacing both
  by anything leaves the result unchanged, so they are never reached.
\<close>

theorem duration_error_iff:
  "(is_duration_error (preprocess lib self audio_bytes) \<longleftrightarrow>
      (\<exists>audio sr. load lib audio_bytes (target_sr self) = Some (audio, sr)
         \<and> (get_duration lib audio sr < min_duration self
              \<or> max_duration self < get_duration lib audio sr)))
   \<and> (is_duration_error (preprocess lib self audio_bytes) \<longrightarrow>
        preprocess (lib\<lparr>normalize := n, trim := t\<rparr>) self audio_bytes
          = preprocess lib self audio_bytes)
   \<and> min_duration (AudioProcessor r) = 1 \<and> max_duration (AudioProcessor r) = 60"
proof (cases "load lib audio_bytes (target_sr self)")
  case None
  then show ?thesis
    by (simp add: preprocess_load_failed AudioProcessor_def)
next
  case (Some a)
  obtain audio sr where a: "a = (audio, sr)" by (cases a)
  have l: "load lib audio_bytes (target_sr self) = Some (audio, sr)" using Some a by simp
  have l': "load (lib\<lparr>normalize := n, trim := t\<rparr>) audio_bytes (target_sr self) = Some (audio, sr)"
    using l by simp
  show ?thesis
    unfolding preprocess_loaded [OF l] preprocess_loaded [OF l'] Let_def
    using l in_bounds_not_duration_error [of lib audio sr "get_duration lib audio sr"]
    by (auto simp: AudioProcessor_def)
qed

text \<open>
  The theorem on inputs of half a second and of ninety seconds, with a normalisation and a
  trimming that would raise if called, and on an input of two seconds.
\<close>

theorem duration_error_iff_witness:
  "preprocess half_second (AudioProcessor 22050) [] = Inl (ValueError (Audio_too_short (1 / 2) 1))
   \<and> is_duration_error (preprocess half_second (AudioProcessor 22050) [])
   \<and> preprocess (half_second\<lparr>normalize := \<lambda>y. None, trim := \<lambda>y top_db. None\<rparr>)
        (AudioProcessor 22050) [] = Inl (ValueError (Audio_too_short (1 / 2) 1))
   \<and> preprocess ninety_seconds (AudioProcessor 22050) [] = Inl (ValueError (Audio_too_long 90 60))
   \<and> is_duration_error (preprocess ninety_seconds (AudioProcessor 22050) [])
   \<and> \<not> is_duration_error (preprocess example_librosa (AudioProcessor 22050) [])
   \<and> load example_librosa [] (target_sr (AudioProcessor 22050)) = Some (replicate 44100 0, 22050)"
  using duration_error_iff [where lib = half_second and self = "AudioProcessor 22050"
        and audio_bytes = "[]" and n = "\<lambda>y. None" and t = "\<lambda>y top_db. None"]
    duration_error_iff [where lib = ninety_seconds and self = "AudioProcessor 22050"
        and audio_bytes = "[]"]
    duration_error_iff [where lib = example_librosa and self = "AudioProcessor 22050"
        and audio_bytes = "[]"]
  by (simp add: half_second_result ninety_seconds_result two_seconds_result)
    (simp add: example_librosa_def AudioProcessor_def)

text \<open>
  C6, as the code has it. For every successfully preprocessed input the returned sample
  rate is the decoder's, untouched by trimming, and the returned samples are the trimmed,
  normalised samples; the returned duration is the duration of the full decoded audio,
  computed before normalisation and trimming and within the bounds, and it is not
  recomputed from the trimmed samples.
\<close>

theorem preprocess_returns_decoded_duration:
  assumes "preprocess lib self audio_bytes = Inr (samples, sample_rate, duration_seconds)"
  shows "\<exists>audio normalized index.
           load lib audio_bytes (target_sr self) = Some (audio, sample_rate)
         \<and> normalize lib audio = Some normalized
         \<and> trim lib normalized 30 = Some (samples, index)
         \<and> duration_seconds = get_duration lib audio sample_rate
         \<and> min_duration self \<le> duration_seconds \<and> duration_seconds \<le> max_duration self"
proof (cases "load lib audio_bytes (target_sr self)")
  case None
  then show ?thesis using assms by (simp add: preprocess_load_failed)
next
  case (Some a)
  obtain audio sr where a: "a = (audio, sr)" by (cases a)
  have l: "load lib audio_bytes (target_sr self) = Some (audio, sr)" using Some a by simp
  show ?thesis
    using assms l unfolding preprocess_loaded [OF l] Let_def
    by (cases "normalize lib audio"; cases "trim lib (the (normalize lib audio)) 30")
       (auto simp: lib_call_def py_bind_def split: if_splits prod.splits)
qed

text \<open>
  The theorem on one second of silence followed by one second of signal at 22050 Hz,
  trimmed to the signal.
\<close>

theorem preprocess_returns_decoded_duration_witness:
  "preprocess leading_silence (AudioProcessor 22050) [] = Inr (replicate 22050 1, 22050, 2)
   \<and> load leading_silence [] (target_sr (AudioProcessor 22050))
       = Some (replicate 22050 0 @ replicate 22050 1, 22050)
   \<and> get_duration leading_silence (replicate 22050 0 @ replicate 22050 1) 22050 = 2"
  using preprocess_returns_decoded_duration [OF leading_silence_result [of "[]"]]
  by (simp add: leading_silence_result)
     (simp add: leading_silence_def example_librosa_def AudioProcessor_def)

text \<open>
  C6 as stated fails there: the returned duration is \<open>2\<close> seconds, while the returned
  22050 samples at 22050 Hz last \<open>1\<close> second.
\<close>

theorem trimmed_duration_counterexample:
  "preprocess leading_silence (AudioProcessor 22050) [] = Inr (replicate 22050 1, 22050, 2)
   \<and> real (length (replicate 22050 (1::real))) / real 22050 = 1
   \<and> (2::real) \<noteq> real (length (replicate 22050 (1::real))) / real 22050"
  by (simp add: leading_silence_result)

text \<open>
  C7, as the code has it. For every \<open>predict\<close> call of either classifier that returns a
  result, the label is AI_GENERATED iff the thresholded score is strictly greater than
  \<open>0.5\<close> (for the heuristic classifier the score after the noise and the clamp to
  \<open>[0.05, 0.95]\<close>, for the ensemble the fused score), and the confidence is that score,
  or one minus it for HUMAN, rounded to three decimals. For the heuristic classifier the
  confidence always lies between \<open>0.5\<close> and \<open>1\<close>. For the ensemble the confidence is
  at least \<open>0.5\<close> when the loaded weights are non-negative numbers that sum to at most
  one over the loaded sub-models, and at most \<open>1\<close> when moreover every sub-model answers
  with a probability. The weight file is read without validation, and \<open>json.load\<close>
  accepts entries (NaN, the infinities, numbers out of range) for which neither bound
  holds; the weights of the model are real numbers, so the bounds are stated for valid
  weights only.
\<close>

theorem confidence_of_returned_label:
  "(mock_predict features language noise = Inr (label, confidence) \<longrightarrow>
      (\<exists>t. mock_final_score features noise = Inr t
         \<and> (label = ''AI_GENERATED'' \<longleftrightarrow> t > 1 / 2)
         \<and> confidence = py_round3 (if t > 1 / 2 then t else 1 - t)
         \<and> 1 / 2 \<le> confidence \<and> confidence \<le> 1))
   \<and> (ensemble_predict self features language = Inr (label', confidence') \<longrightarrow>
      (\<exists>s. ensemble_raw_score self features = Inr s
         \<and> (label' = ''AI_GENERATED'' \<longleftrightarrow> s > 1 / 2)
         \<and> confidence' = py_round3 (if s > 1 / 2 then s else 1 - s)
         \<and> (weights_valid self \<longrightarrow> 1 / 2 \<le> confidence')
         \<and> (\<forall>features_scaled. scale_features self features = Inr features_scaled
               \<and> weights_valid self \<and> probabilities_valid self features_scaled
               \<longrightarrow> confidence' \<le> 1)))"
proof (intro conjI impI)
  assume a: "mock_predict features language noise = Inr (label, confidence)"
  obtain t where t: "mock_final_score features noise = Inr t" "1 / 20 \<le> t" "t \<le> 19 / 20"
    using mock_final_score_range by blast
  have d: "decide t = (label, confidence)"
    using a t(1) by (simp add: mock_predict_def py_bind_Inr)
  have "label = ''AI_GENERATED'' \<longleftrightarrow> t > 1 / 2"
    using decide_label [of t] d by simp
  moreover have "confidence = py_round3 (if t > 1 / 2 then t else 1 - t)"
    using decide_confidence [of t] d by simp
  moreover have "1 / 2 \<le> confidence"
    using decide_ge_half [of t] d by simp
  moreover have "confidence \<le> 1"
    using decide_le_one [of t] t d by simp
  ultimately show "\<exists>t. mock_final_score features noise = Inr t
         \<and> (label = ''AI_GENERATED'' \<longleftrightarrow> t > 1 / 2)
         \<and> confidence = py_round3 (if t > 1 / 2 then t else 1 - t)
         \<and> 1 / 2 \<le> confidence \<and> confidence \<le> 1"
    using t(1) by blast
next
  assume a: "ensemble_predict self features language = Inr (label', confidence')"
  then obtain s where s: "ensemble_raw_score self features = Inr s"
    by (cases "ensemble_raw_score self features") (simp_all add: ensemble_predict_def py_bind_def)
  have d: "decide s = (label', confidence')"
    using a s by (simp add: ensemble_predict_def py_bind_Inr)
  have "label' = ''AI_GENERATED'' \<longleftrightarrow> s > 1 / 2"
    using decide_label [of s] d by simp
  moreover have "confidence' = py_round3 (if s > 1 / 2 then s else 1 - s)"
    using decide_confidence [of s] d by simp
  moreover have "weights_valid self \<longrightarrow> 1 / 2 \<le> confidence'"
    using decide_ge_half [of s] d by simp
  moreover have "\<forall>features_scaled. scale_features self features = Inr features_scaled
               \<and> weights_valid self \<and> probabilities_valid self features_scaled
               \<longrightarrow> confidence' \<le> 1"
  proof (intro allI impI)
    fix fs'
    assume h: "scale_features self features = Inr fs'
               \<and> weights_valid self \<and> probabilities_valid self fs'"
    have "ensemble_raw_score self features
            = Inr (sum_list (map (contribution (weights self) fs') (models self)))"
      using s h by (auto simp: ensemble_raw_score_def py_bind_Inr Let_def ensemble_score_collect
                         split: if_splits)
    then have e: "s = sum_list (map (contribution (weights self) fs') (models self))"
      using s by simp
    have "0 \<le> s \<and> s \<le> sum_list (map (\<lambda>(name, m). dict_get (weights self) name 0) (models self))"
      unfolding e using h
      by (intro contribution_bounds) (simp_all add: weights_valid_def probabilities_valid_def)
    then have "0 \<le> s" "s \<le> 1" using h by (simp_all add: weights_valid_def)
    then show "confidence' \<le> 1" using decide_le_one [of s] d by simp
  qed
  ultimately show "\<exists>s. ensemble_raw_score self features = Inr s
         \<and> (label' = ''AI_GENERATED'' \<longleftrightarrow> s > 1 / 2)
         \<and> confidence' = py_round3 (if s > 1 / 2 then s else 1 - s)
         \<and> (weights_valid self \<longrightarrow> 1 / 2 \<le> confidence')
         \<and> (\<forall>features_scaled. scale_features self features = Inr features_scaled
               \<and> weights_valid self \<and> probabilities_valid self features_scaled
               \<longrightarrow> confidence' \<le> 1)"
    using s by blast
qed

text \<open>
  The theorem on the all-zero vector without noise, and on the ensemble with weights
  \<open>0.5\<close>, \<open>0.3\<close>, \<open>0.2\<close>, the second sub-model failing.
\<close>

theorem confidence_of_returned_label_witness:
  "mock_predict (replicate 127 0) ''english'' 0 = Inr (''AI_GENERATED'', 19 / 20)
   \<and> mock_final_score (replicate 127 0) 0 = Inr (19 / 20)
   \<and> ensemble_predict (example_ensemble (3 / 5) (3 / 5)) (replicate 127 0) ''english''
       = Inr (''HUMAN'', 29 / 50)
   \<and> ensemble_raw_score (example_ensemble (3 / 5) (3 / 5)) (replicate 127 0) = Inr (21 / 50)
   \<and> scale_features (example_ensemble (3 / 5) (3 / 5)) (replicate 127 0) = Inr (replicate 127 0)
   \<and> weights_valid (example_ensemble (3 / 5) (3 / 5))
   \<and> probabilities_valid (example_ensemble (3 / 5) (3 / 5)) (replicate 127 0)
   \<and> (1 / 2 :: real) \<le> 29 / 50 \<and> (29 / 50 :: real) \<le> 1"
proof -
  have sc: "scale_features (example_ensemble (3 / 5) (3 / 5)) (replicate 127 0)
              = Inr (replicate 127 0)"
    by (simp add: example_ensemble_def scale_features_def)
  have rs: "ensemble_raw_score (example_ensemble (3 / 5) (3 / 5)) (replicate 127 0) = Inr (21 / 50)"
    by (simp add: example_ensemble_def ensemble_raw_score_def scale_features_def py_bind_Inr
          ensemble_score_def dict_get_def)
  have fs: "mock_final_score (replicate 127 0) 0 = Inr (19 / 20)"
    by (simp add: mock_final_score_def mock_clamped_score_127 py_bind_Inr zeros_score)
  have "(1 / 2 :: real) \<le> 29 / 50 \<and> (29 / 50 :: real) \<le> 1"
    using confidence_of_returned_label
      [where features = "replicate 127 0" and language = "''english''" and noise = 0
         and label = "''AI_GENERATED''" and confidence = "19 / 20"
         and self = "example_ensemble (3 / 5) (3 / 5)" and label' = "''HUMAN''"
         and confidence' = "29 / 50"]
      zeros_predict example_ensemble_predict sc example_ensemble_valid
    by blast
  then show ?thesis
    using zeros_predict example_ensemble_predict sc rs fs example_ensemble_valid by simp
qed

text \<open>
  C7 as stated fails: a single sub-model with weight \<open>1\<close> answering \<open>0.7004\<close> gives the
  score \<open>0.7004\<close> and the confidence \<open>0.7\<close>; and a weight file giving that sub-model
  the weight \<open>2\<close> gives the confidence \<open>2\<close> for the answer \<open>1\<close>.
\<close>

theorem rounded_confidence_counterexample:
  "ensemble_raw_score (single_ensemble 1 (1751 / 2500)) (replicate 127 0) = Inr (1751 / 2500)
   \<and> ensemble_predict (single_ensemble 1 (1751 / 2500)) (replicate 127 0) ''english''
       = Inr (''AI_GENERATED'', 7 / 10)
   \<and> (7 / 10 :: real) \<noteq> 1751 / 2500
   \<and> ensemble_predict (single_ensemble 2 1) (replicate 127 0) ''english''
       = Inr (''AI_GENERATED'', 2)"
  by (simp add: single_ensemble_def ensemble_predict_def ensemble_raw_score_def
        scale_features_def py_bind_Inr ensemble_score_def dict_get_def decide_def
        py_round3_7004)
    (simp add: py_round3_def round_half_even_def)

text \<open>
  C8. The temporal extractor returns four values. When no speech interval is detected, the
  silence ratio is \<open>1\<close> and the average pause duration \<open>0\<close>. When intervals exist, the
  silence ratio of a non-empty buffer is one minus the total interval length over the
  number of samples, and, for a positive sample rate, the average pause duration is the mean
  gap between consecutive intervals divided by the sample rate, and \<open>0\<close> for fewer than
  two intervals.
\<close>

theorem temporal_features:
  "length (extract_temporal_features lib audio sr) = 4
   \<and> (split lib audio 30 = [] \<longrightarrow>
        extract_temporal_features lib audio sr ! 0 = 1
        \<and> extract_temporal_features lib audio sr ! 1 = 0)
   \<and> (split lib audio 30 \<noteq> [] \<and> audio \<noteq> [] \<longrightarrow>
        extract_temporal_features lib audio sr ! 0
          = 1 - real_of_int (\<Sum>(start, end) \<leftarrow> split lib audio 30. end - start)
                  / real (length audio))
   \<and> (split lib audio 30 \<noteq> [] \<and> 0 < sr \<longrightarrow>
        extract_temporal_features lib audio sr ! 1
          = (if length (split lib audio 30) < 2 then 0
             else np_mean (map real_of_int (interval_gaps (split lib audio 30))) / real sr))"
  by (simp add: extract_temporal_features_unfold)

text \<open>
  The theorem on ten samples at 2 Hz with no interval, with the intervals \<open>(0, 2)\<close>,
  \<open>(4, 6)\<close>, \<open>(9, 10)\<close>, and with the single interval \<open>(0, 10)\<close>.
\<close>

theorem temporal_features_witness:
  "split no_intervals (replicate 10 0) 30 = []
   \<and> take 2 (extract_temporal_features no_intervals (replicate 10 0) 2) = [1, 0]
   \<and> split three_intervals (replicate 10 0) 30 = [(0, 2), (4, 6), (9, 10)]
   \<and> replicate 10 (0::real) \<noteq> []
   \<and> take 2 (extract_temporal_features three_intervals (replicate 10 0) 2) = [1 / 2, 5 / 4]
   \<and> split example_librosa (replicate 10 0) 30 = [(0, 10)]
   \<and> take 2 (extract_temporal_features example_librosa (replicate 10 0) 2) = [0, 0]"
proof -
  have a: "split no_intervals (replicate 10 0) 30 = []"
    by (simp add: no_intervals_def example_librosa_def)
  have b: "split three_intervals (replicate 10 0) 30 = [(0, 2), (4, 6), (9, 10)]"
    by (simp add: three_intervals_def example_librosa_def)
  have c: "split example_librosa (replicate 10 0) 30 = [(0, 10)]"
    by (simp add: example_librosa_def)
  have g: "interval_gaps [(0, 2), (4, 6), (9, 10)] = [2, 3]"
    by (simp add: interval_gaps_def)
  have t: "take 2 xs = [xs ! 0, xs ! 1]" if "length xs = 4" for xs :: "real list"
    using that by (cases xs; cases "tl xs") auto
  show ?thesis
    using temporal_features [of no_intervals "replicate 10 0" 2]
      temporal_features [of three_intervals "replicate 10 0" 2]
      temporal_features [of example_librosa "replicate 10 0" 2]
    by (simp add: a b c g t np_mean_def)
qed

text \<open>
  C9, as the code has it. For a vector of any length, the empty one included, \<open>predict\<close>
  returns a label and a confidence and never raises. An offset beyond the end of the vector
  is read as the feature value \<open>0\<close>, which takes part in the rules as any value does (so
  the rules on offsets 91, 96, 97 and 101 add their \<open>0.25\<close>, \<open>0.15\<close>, \<open>0.15\<close> and
  \<open>0.10\<close>); the rule on \<open>std(40:80)\<close> is skipped for fewer than 80 values.
\<close>

theorem mock_predict_total:
  "(\<exists>label confidence. mock_predict features language noise = Inr (label, confidence))
   \<and> mock_adjustments features =
       Inr (spec_adjustment_table (feature_at features)
              (length features \<ge> 80 \<and> np_std (slice features 40 80) < 2))"
  by (simp add: mock_predict_def mock_final_score_def mock_clamped_score_def
        mock_adjustments_table py_bind_Inr decide_def Let_def)

text \<open>
  C9 as stated fails on the empty vector: every offset is beyond the end, and the
  adjustments are \<open>0.65\<close>, not zero, so the accumulated score is \<open>1\<close> and not \<open>0.5\<close>.
\<close>

theorem out_of_range_counterexample:
  "mock_adjustments [] = Inr (13 / 20) \<and> mock_clamped_score [] = Inr 1"
  by (simp add: mock_clamped_score_def mock_adjustments_table py_bind_Inr
        spec_adjustment_table_def feature_at_def)

text \<open>
  C10. When scaling succeeds and some sub-model answers, \<open>predict\<close> returns, and the fused
  score is the sum over the names in the surviving predictions of \<open>weights.get(name, 0)\<close>
  times that sub-model's probability. A surviving sub-model without an entry in the weight
  mapping adds nothing: the score is the same sum over the surviving names that have an
  entry, with no error and no renormalisation.
\<close>

theorem missing_weight_contributes_zero:
  assumes "distinct (map fst (models self))"
    and "scale_features self features = Inr features_scaled"
    and "predictions = collect_predictions (models self) features_scaled"
    and "predictions \<noteq> []"
  shows "ensemble_raw_score self features
           = Inr (\<Sum>name \<in> fst ` set predictions.
                    dict_get (weights self) name 0 * the (map_of predictions name))
       \<and> ensemble_raw_score self features
           = Inr (\<Sum>name \<in> fst ` set predictions \<inter> dom (weights self).
                    the (weights self name) * the (map_of predictions name))
       \<and> ensemble_predict self features language
           = Inr (decide (\<Sum>name \<in> fst ` set predictions.
                    dict_get (weights self) name 0 * the (map_of predictions name)))"
proof -
  have d: "distinct (map fst predictions)"
    using assms(1,3) by (simp add: collect_predictions_distinct)
  have s: "ensemble_score (weights self) predictions
         = (\<Sum>name \<in> fst ` set predictions.
              dict_get (weights self) name 0 * the (map_of predictions name))"
    unfolding ensemble_score_def using sum_list_dict [OF d] .
  have r: "ensemble_raw_score self features = Inr (ensemble_score (weights self) predictions)"
    using assms(2,3,4) by (simp add: ensemble_raw_score_def py_bind_def Let_def)
  have i: "(\<Sum>name \<in> fst ` set predictions.
              dict_get (weights self) name 0 * the (map_of predictions name))
         = (\<Sum>name \<in> fst ` set predictions \<inter> dom (weights self).
              the (weights self name) * the (map_of predictions name))"
    by (simp add: sum.inter_restrict dict_get_dom)
  show ?thesis
    using r s i by (simp add: ensemble_predict_def py_bind_def)
qed

text \<open>
  The theorem on two answering sub-models, \<open>0.8\<close> and \<open>0.6\<close>, with a weight file naming
  only the first, at \<open>0.5\<close>: the score is \<open>0.4\<close>.
\<close>

theorem missing_weight_contributes_zero_witness:
  "distinct (map fst (models unweighted_ensemble))
   \<and> scale_features unweighted_ensemble (replicate 127 0) = Inr (replicate 127 0)
   \<and> collect_predictions (models unweighted_ensemble) (replicate 127 0)
       = [(''random_forest'', 4 / 5), (''svm'', 3 / 5)]
   \<and> weights unweighted_ensemble ''svm'' = None
   \<and> ensemble_raw_score unweighted_ensemble (replicate 127 0) = Inr (2 / 5)"
proof -
  have h1: "distinct (map fst (models unweighted_ensemble))"
    by (simp add: unweighted_ensemble_def)
  have h2: "scale_features unweighted_ensemble (replicate 127 0) = Inr (replicate 127 0)"
    by (simp add: unweighted_ensemble_def scale_features_def)
  have h3: "collect_predictions (models unweighted_ensemble) (replicate 127 0)
              = [(''random_forest'', 4 / 5), (''svm'', 3 / 5)]"
    by (simp add: unweighted_ensemble_def)
  have h4: "[(''random_forest'', 4 / 5), (''svm'', 3 / 5 :: real)] \<noteq> []"
    by simp
  have w: "weights unweighted_ensemble ''svm'' = None"
    by (simp add: unweighted_ensemble_def)
  have v: "(\<Sum>name \<in> fst ` set [(''random_forest'', 4 / 5), (''svm'', 3 / 5 :: real)].
              dict_get (weights unweighted_ensemble) name 0
              * the (map_of [(''random_forest'', 4 / 5), (''svm'', 3 / 5)] name)) = 2 / 5"
    by (simp add: unweighted_ensemble_def dict_get_def)
  show ?thesis
    using missing_weight_contributes_zero [OF h1 h2 h3 [symmetric] h4, of "''english''"] h1 h2 h3 w
    by (simp only: v simp_thms)
qed

end
